theory Spec2Isabelle
  imports Complex_Main "HOL-Library.Code_Target_Nat"
begin

section \<open>JavaScript numbers\<close>

text \<open>
  A JavaScript number is NaN, an infinity or a finite double. A finite double is taken as
  the real number it is, so that the comparisons are those of the reals; the doubles are
  the values of \<open>to_double\<close> below, which every number read from a text goes through.
\<close>

datatype jsnum = NaN | NegInf | Fin real | PosInf

fun isNaN :: "jsnum \<Rightarrow> bool" where
  "isNaN NaN = True"
| "isNaN _ = False"

text \<open>The operators \<^verbatim>\<open><\<close>, \<^verbatim>\<open>></\<close> and \<^verbatim>\<open><=\<close> on numbers: false as soon as one side is NaN.\<close>

fun js_lt :: "jsnum \<Rightarrow> jsnum \<Rightarrow> bool" where
  "js_lt NaN _ = False"
| "js_lt _ NaN = False"
| "js_lt _ NegInf = False"
| "js_lt NegInf _ = True"
| "js_lt PosInf _ = False"
| "js_lt (Fin a) PosInf = True"
| "js_lt (Fin a) (Fin b) = (a < b)"

definition js_gt :: "jsnum \<Rightarrow> jsnum \<Rightarrow> bool" where
  "js_gt a b = js_lt b a"

definition js_le :: "jsnum \<Rightarrow> jsnum \<Rightarrow> bool" where
  "js_le a b = (\<not> isNaN a \<and> \<not> isNaN b \<and> (a = b \<or> js_lt a b))"

subsection \<open>Rounding to a double\<close>

text \<open>The nearest integer, a tie going to the even one.\<close>

definition round_half_even :: "real \<Rightarrow> int" where
  "round_half_even q =
     (let f = \<lfloor>q\<rfloor>; d = q - of_int f
      in if d < 1 / 2 then f else if 1 / 2 < d then f + 1 else if even f then f else f + 1)"

text \<open>
  A positive number is scaled by powers of two until it lies in \<open>[2^52, 2^53)\<close>, where the
  doubles are the integers; the exponent does not go below that of the subnormal doubles.
\<close>

function norm_up :: "real \<Rightarrow> int \<Rightarrow> real \<times> int" where
  "norm_up m e = (if m < 2 ^ 52 \<and> - 1074 < e then norm_up (2 * m) (e - 1) else (m, e))"
  by pat_completeness auto
termination
  by (relation "measure (\<lambda>(m, e). nat (e + 1074))") auto

function norm_down :: "real \<Rightarrow> int \<Rightarrow> real \<times> int" where
  "norm_down m e = (if 2 ^ 53 \<le> m then norm_down (m / 2) (e + 1) else (m, e))"
  by pat_completeness auto
termination
proof (relation "measure (\<lambda>(m, e). nat \<lfloor>m\<rfloor>)")
  show "wf (measure (\<lambda>(m :: real, e :: int). nat \<lfloor>m\<rfloor>))" by simp
next
  fix m :: real and e :: int
  assume a: "2 ^ 53 \<le> m"
  then have "m / 2 \<le> m - 1" by simp
  then have "\<lfloor>m / 2\<rfloor> \<le> \<lfloor>m - 1\<rfloor>" by (rule floor_mono)
  moreover have "0 < \<lfloor>m\<rfloor>" using a by simp
  ultimately show "((m / 2, e + 1), (m, e)) \<in> measure (\<lambda>(m, e). nat \<lfloor>m\<rfloor>)"
    by simp
qed

declare norm_up.simps [simp del]

declare norm_down.simps [simp del]

definition scale2 :: "real \<Rightarrow> int \<Rightarrow> real" where
  "scale2 m e = (if 0 \<le> e then m * 2 ^ nat e else m / 2 ^ nat (- e))"

text \<open>
  The double nearest to a real number (binary64, round to nearest, ties to even): an
  infinity from \<open>2^1024 - 2^970\<close> on, zero up to \<open>2^-1075\<close>.
\<close>

definition to_double :: "real \<Rightarrow> jsnum" where
  "to_double x =
     (if x = 0 then Fin 0
      else
        (let (m, e) = (if \<bar>x\<bar> < 2 ^ 52 then norm_up \<bar>x\<bar> 0 else norm_down \<bar>x\<bar> 0);
             y = scale2 (of_int (round_half_even m)) e
         in if 2 ^ 1024 \<le> y then (if x < 0 then NegInf else PosInf)
            else Fin (if x < 0 then - y else y)))"

section \<open>Reading numbers from strings\<close>

text \<open>
  Strings are ASCII. White space is TAB, LF, VT, FF, CR and SPACE; the white space
  characters beyond ASCII are not represented.
\<close>

definition is_ws :: "char \<Rightarrow> bool" where
  "is_ws c = (c \<in> set [CHR 0x09, CHR 0x0A, CHR 0x0B, CHR 0x0C, CHR 0x0D, CHR '' ''])"

definition is_digit :: "char \<Rightarrow> bool" where
  "is_digit c = (c \<in> set ''0123456789'')"

definition digit_val :: "char \<Rightarrow> nat" where
  "digit_val c = of_char c - 48"

definition dec_val :: "string \<Rightarrow> nat" where
  "dec_val ds = foldl (\<lambda>a c. 10 * a + digit_val c) 0 ds"

text \<open>An optional sign in front of a literal: whether it is a minus, and the rest.\<close>

fun read_sign :: "string \<Rightarrow> bool \<times> string" where
  "read_sign [] = (False, [])"
| "read_sign (c # r) =
     (if c = CHR ''-'' then (True, r) else if c = CHR ''+'' then (False, r) else (False, c # r))"

text \<open>
  The exponent part of a decimal literal, \<^verbatim>\<open>e\<close> or \<^verbatim>\<open>E\<close>, an optional sign and at least
  one digit: its value and the rest of the string. Without a digit there is no exponent
  part and nothing is consumed.
\<close>

definition read_exponent :: "string \<Rightarrow> int \<times> string" where
  "read_exponent s =
     (case s of
        [] \<Rightarrow> (0, s)
      | c # r \<Rightarrow>
          if c = CHR ''e'' \<or> c = CHR ''E'' then
            (let (neg, u) = read_sign r; ds = takeWhile is_digit u
             in if ds = [] then (0, s)
                else ((if neg then - int (dec_val ds) else int (dec_val ds)), dropWhile is_digit u))
          else (0, s))"

definition scale10 :: "real \<Rightarrow> int \<Rightarrow> real" where
  "scale10 m e = (if 0 \<le> e then m * 10 ^ nat e else m / 10 ^ nat (- e))"

text \<open>
  The longest prefix that is an unsigned decimal literal (digits, an optional fraction,
  an optional exponent; or a dot, digits and an optional exponent): its value and the
  rest of the string, or None when no prefix is a literal.
\<close>

definition read_decimal :: "string \<Rightarrow> (real \<times> string) option" where
  "read_decimal s =
     (let ip = takeWhile is_digit s; r1 = dropWhile is_digit s;
          (fp, r2) = (case r1 of
                        [] \<Rightarrow> ([], r1)
                      | c # r \<Rightarrow> if c = CHR ''.'' \<and> (ip \<noteq> [] \<or> takeWhile is_digit r \<noteq> [])
                                then (takeWhile is_digit r, dropWhile is_digit r)
                                else ([], r1))
      in if ip = [] \<and> fp = [] then None
         else (let (e, r3) = read_exponent r2
               in Some (scale10 (real (dec_val ip) + real (dec_val fp) / 10 ^ length fp) e, r3)))"

definition starts_with :: "string \<Rightarrow> string \<Rightarrow> bool" where
  "starts_with p s = (take (length p) s = p)"

text \<open>
  \<^verbatim>\<open>parseFloat\<close> on a string: leading white space is skipped, then the longest prefix
  that is a signed decimal literal or a signed \<^verbatim>\<open>Infinity\<close> gives the value, the double
  nearest to the decimal; whatever follows is ignored; NaN when there is no such prefix.
\<close>

definition parseFloat :: "string \<Rightarrow> jsnum" where
  "parseFloat s =
     (let (neg, u) = read_sign (dropWhile is_ws s)
      in if starts_with ''Infinity'' u then (if neg then NegInf else PosInf)
         else (case read_decimal u of
                 None \<Rightarrow> NaN
               | Some (m, r) \<Rightarrow> to_double (if neg then - m else m)))"

section \<open>JavaScript values\<close>

text \<open>
  The provider payload has the type \<^verbatim>\<open>any\<close>: a value is undefined, null, a boolean, a
  number, a string, an array or an object with its own properties in an association list
  (read with \<open>map_of\<close>). Functions are not values of the payload.
\<close>

datatype jsval =
    JUndefined
  | JNull
  | JBool bool
  | JNum jsnum
  | JStr string
  | JArr "jsval list"
  | JObj "(string \<times> jsval) list"

datatype js_error = TypeError

definition bind_throw :: "js_error + 'a \<Rightarrow> ('a \<Rightarrow> js_error + 'b) \<Rightarrow> js_error + 'b" where
  "bind_throw r f = (case r of Inl e \<Rightarrow> Inl e | Inr v \<Rightarrow> f v)"

text \<open>The array index a property key denotes, if it is the canonical decimal of one.\<close>

definition index_of :: "string \<Rightarrow> nat option" where
  "index_of k =
     (if k \<noteq> [] \<and> list_all is_digit k \<and> (k = ''0'' \<or> hd k \<noteq> CHR ''0'') then Some (dec_val k)
      else None)"

text \<open>
  Reading the property \<open>k\<close> of a value, \<^verbatim>\<open>v.k\<close> or \<^verbatim>\<open>v[k]\<close>: a TypeError on undefined and
  null, the own property of an object, the length and the elements of an array or a
  string, and undefined for everything else. The inherited methods of the prototypes are
  not represented; the program reads none of them as a value.
\<close>

fun getProp :: "jsval \<Rightarrow> string \<Rightarrow> js_error + jsval" where
  "getProp JUndefined k = Inl TypeError"
| "getProp JNull k = Inl TypeError"
| "getProp (JObj kvs) k = Inr (case map_of kvs k of Some v \<Rightarrow> v | None \<Rightarrow> JUndefined)"
| "getProp (JArr xs) k =
     Inr (if k = ''length'' then JNum (Fin (real (length xs)))
          else (case index_of k of
                  Some i \<Rightarrow> if i < length xs then xs ! i else JUndefined
                | None \<Rightarrow> JUndefined))"
| "getProp (JStr s) k =
     Inr (if k = ''length'' then JNum (Fin (real (length s)))
          else (case index_of k of
                  Some i \<Rightarrow> if i < length s then JStr [s ! i] else JUndefined
                | None \<Rightarrow> JUndefined))"
| "getProp (JBool b) k = Inr JUndefined"
| "getProp (JNum x) k = Inr JUndefined"

fun truthy :: "jsval \<Rightarrow> bool" where
  "truthy JUndefined = False"
| "truthy JNull = False"
| "truthy (JBool b) = b"
| "truthy (JNum x) = (x \<noteq> NaN \<and> x \<noteq> Fin 0)"
| "truthy (JStr s) = (s \<noteq> [])"
| "truthy (JArr xs) = True"
| "truthy (JObj kvs) = True"

subsection \<open>Conversion to a string\<close>

text \<open>
  \<^verbatim>\<open>parseInt\<close>, \<^verbatim>\<open>parseFloat\<close> and the comparison of a non-number convert their operand
  to a string first. For an object the conversion calls its \<^verbatim>\<open>toString\<close>, the inherited
  one unless the object has an own property of that name; an own property of a payload
  is no function, and then the conversion throws a TypeError. An array is converted by
  joining the conversions of all its elements, undefined and null counting as empty; so
  it throws when one of its elements does.
\<close>

fun to_string_throws :: "jsval \<Rightarrow> bool" where
  "to_string_throws (JObj kvs) = (map_of kvs ''toString'' \<noteq> None)"
| "to_string_throws (JArr xs) = (\<exists>x \<in> set xs. to_string_throws x)"
| "to_string_throws _ = False"

subsection \<open>parseInt with radix 10\<close>

text \<open>
  On a string: white space, a sign and the longest run of digits, whose integer is
  rounded to a double; NaN without a digit.
\<close>

definition parseInt_str :: "string \<Rightarrow> jsnum" where
  "parseInt_str s =
     (let (neg, u) = read_sign (dropWhile is_ws s); ds = takeWhile is_digit u
      in if ds = [] then NaN
         else to_double (if neg then - real (dec_val ds) else real (dec_val ds)))"

text \<open>
  The first decimal digit of a positive number and the power of ten it stands at:
  \<open>lead_int n 1 = (d, p)\<close> with \<open>d * p \<le> n < (d + 1) * p\<close>, and
  \<open>lead_small r 1 = (d, p)\<close> with \<open>d / p \<le> r < (d + 1) / p\<close>.
\<close>

function lead_int :: "int \<Rightarrow> int \<Rightarrow> int \<times> int" where
  "lead_int n p = (if n < 10 then (n, p) else lead_int (n div 10) (10 * p))"
  by pat_completeness auto
termination
  by (relation "measure (\<lambda>(n, p). nat n)") auto

function lead_small :: "real \<Rightarrow> int \<Rightarrow> int \<times> int" where
  "lead_small r p = (if r \<le> 0 \<or> 1 \<le> r then (\<lfloor>r\<rfloor>, p) else lead_small (10 * r) (10 * p))"
  by pat_completeness auto
termination
proof (relation "measure (\<lambda>(r, p). nat \<lceil>1 / r\<rceil>)")
  show "wf (measure (\<lambda>(r :: real, p :: int). nat \<lceil>1 / r\<rceil>))" by simp
next
  fix r :: real and p :: int
  assume "\<not> (r \<le> 0 \<or> 1 \<le> r)"
  then have r: "0 < r" "r < 1" by auto
  define x where "x = 1 / r"
  have x1: "1 < x" using r by (simp add: x_def)
  have eq: "1 / (10 * r) = x / 10" by (simp add: x_def)
  have "\<lceil>x / 10\<rceil> < \<lceil>x\<rceil>"
  proof (cases "x \<le> 10")
    case True
    then have "\<lceil>x / 10\<rceil> \<le> 1" by (simp add: ceiling_le_iff)
    moreover have "2 \<le> \<lceil>x\<rceil>" using x1 by linarith
    ultimately show ?thesis by linarith
  next
    case False
    then have "x / 10 \<le> x - 1" by simp
    then have "\<lceil>x / 10\<rceil> \<le> \<lceil>x - 1\<rceil>" by (rule ceiling_mono)
    then show ?thesis by simp
  qed
  moreover have "0 < \<lceil>x\<rceil>" using x1 by linarith
  ultimately show "((10 * r, 10 * p), (r, p)) \<in> measure (\<lambda>(r, p). nat \<lceil>1 / r\<rceil>)"
    by (simp add: eq x_def [symmetric])
qed

declare lead_int.simps [simp del]

declare lead_small.simps [simp del]

text \<open>
  The first digit of the text a positive double prints as in exponent notation. A double
  prints as the shortest decimal that rounds to it: that is the next decimal of one
  digit above the number when it rounds to the number, and a decimal with the first
  digit of the number otherwise.
\<close>

definition printed_digit :: "real \<Rightarrow> int" where
  "printed_digit r =
     (let (d, above) =
            (if 1 \<le> r
             then (let (d, p) = lead_int \<lfloor>r\<rfloor> 1 in (d, real_of_int ((d + 1) * p)))
             else (let (d, p) = lead_small r 1 in (d, real_of_int (d + 1) / real_of_int p)))
      in if to_double above = Fin r then (if d = 9 then 1 else d + 1) else d)"

text \<open>
  \<^verbatim>\<open>parseInt\<close> of a number reads the digits in front of the text the number prints as.
  Below \<open>10^21\<close> and from the double of \<open>10^-6\<close> on (and for zero) a number prints in
  positional notation, and the digits read are its integer part. Outside it prints in
  exponent notation, one digit in front of the dot or the \<^verbatim>\<open>e\<close>. NaN and the infinities
  print as words.
\<close>

definition parseInt_num :: "jsnum \<Rightarrow> jsnum" where
  "parseInt_num x =
     (case x of
        Fin r \<Rightarrow>
          if r = 0 then Fin 0
          else if \<bar>r\<bar> < 10 ^ 21 \<and> js_le (to_double (1 / 10 ^ 6)) (Fin \<bar>r\<bar>)
          then Fin (if r < 0 then - real_of_int \<lfloor>- r\<rfloor> else real_of_int \<lfloor>r\<rfloor>)
          else Fin (if r < 0 then - real_of_int (printed_digit (- r))
                    else real_of_int (printed_digit r))
      | _ \<Rightarrow> NaN)"

text \<open>
  What \<^verbatim>\<open>parseInt(v, 10)\<close> reads from a value that converts to a string. An array prints
  as its elements joined by commas, so only its first element is read; undefined, null,
  booleans and objects print as words that start with no digit.
\<close>

fun parseInt_read :: "jsval \<Rightarrow> jsnum" where
  "parseInt_read (JStr s) = parseInt_str s"
| "parseInt_read (JNum x) = parseInt_num x"
| "parseInt_read (JArr (v # vs)) = parseInt_read v"
| "parseInt_read _ = NaN"

definition parseInt10 :: "jsval \<Rightarrow> js_error + jsnum" where
  "parseInt10 v = (if to_string_throws v then Inl TypeError else Inr (parseInt_read v))"

subsection \<open>parseFloat and ToNumber on values\<close>

text \<open>
  What \<^verbatim>\<open>parseFloat(v)\<close> reads from a value that converts to a string. A double prints as
  a literal that reads back as the same double.
\<close>

fun parseFloat_read :: "jsval \<Rightarrow> jsnum" where
  "parseFloat_read (JStr s) = parseFloat s"
| "parseFloat_read (JNum x) = x"
| "parseFloat_read (JArr (v # vs)) = parseFloat_read v"
| "parseFloat_read _ = NaN"

definition parseFloat_val :: "jsval \<Rightarrow> js_error + jsnum" where
  "parseFloat_val v = (if to_string_throws v then Inl TypeError else Inr (parseFloat_read v))"

definition hex_val :: "char \<Rightarrow> nat option" where
  "hex_val c =
     (let n = (of_char c :: nat)
      in if 48 \<le> n \<and> n \<le> 57 then Some (n - 48)
         else if 65 \<le> n \<and> n \<le> 70 then Some (n - 55)
         else if 97 \<le> n \<and> n \<le> 102 then Some (n - 87)
         else None)"

text \<open>A non-empty string of digits of the base \<open>b\<close>, as a double; NaN otherwise.\<close>

definition read_base :: "nat \<Rightarrow> string \<Rightarrow> jsnum" where
  "read_base b ds =
     (if ds \<noteq> [] \<and> list_all (\<lambda>c. case hex_val c of Some d \<Rightarrow> d < b | None \<Rightarrow> False) ds
      then to_double
             (real (foldl (\<lambda>a c. b * a + (case hex_val c of Some d \<Rightarrow> d | None \<Rightarrow> 0)) 0 ds))
      else NaN)"

text \<open>
  The conversion of a string to a number: white space at both ends is dropped, the empty
  string is 0, and the whole rest has to be one literal: a signed decimal literal, a
  signed \<^verbatim>\<open>Infinity\<close>, or an unsigned hexadecimal, octal or binary integer. The value is
  the double nearest to the literal.
\<close>

definition StringToNumber :: "string \<Rightarrow> jsnum" where
  "StringToNumber s =
     (let t = rev (dropWhile is_ws (rev (dropWhile is_ws s)))
      in if t = [] then Fin 0
         else if starts_with ''0x'' t \<or> starts_with ''0X'' t then read_base 16 (drop 2 t)
         else if starts_with ''0o'' t \<or> starts_with ''0O'' t then read_base 8 (drop 2 t)
         else if starts_with ''0b'' t \<or> starts_with ''0B'' t then read_base 2 (drop 2 t)
         else (let (neg, u) = read_sign t
               in if u = ''Infinity'' then (if neg then NegInf else PosInf)
                  else (case read_decimal u of
                          Some (m, []) \<Rightarrow> to_double (if neg then - m else m)
                        | _ \<Rightarrow> NaN)))"

text \<open>
  ToNumber of a value that converts to a primitive. An array is converted through its
  printed form: empty for no element and for a single undefined or null, the element's
  own form for a single element, and a text with a comma, which is no literal, for more.
  An object prints as a word.
\<close>

fun ToNumber_read :: "jsval \<Rightarrow> jsnum" where
  "ToNumber_read JUndefined = NaN"
| "ToNumber_read JNull = Fin 0"
| "ToNumber_read (JBool b) = Fin (if b then 1 else 0)"
| "ToNumber_read (JNum x) = x"
| "ToNumber_read (JStr s) = StringToNumber s"
| "ToNumber_read (JObj kvs) = NaN"
| "ToNumber_read (JArr []) = Fin 0"
| "ToNumber_read (JArr [JUndefined]) = Fin 0"
| "ToNumber_read (JArr [JNull]) = Fin 0"
| "ToNumber_read (JArr [JBool b]) = NaN"
| "ToNumber_read (JArr [v]) = ToNumber_read v"
| "ToNumber_read (JArr (v # w # vs)) = NaN"

text \<open>
  ToNumber, as the comparison \<^verbatim>\<open>></\<close> applies it to an operand: an object or an array is
  converted through its \<^verbatim>\<open>toString\<close> (the inherited \<^verbatim>\<open>valueOf\<close> gives no primitive), with
  the same TypeError.
\<close>

definition ToNumber :: "jsval \<Rightarrow> js_error + jsnum" where
  "ToNumber v = (if to_string_throws v then Inl TypeError else Inr (ToNumber_read v))"

section \<open>OpenWeatherMapper\<close>

definition TEMP_EXTREMELY_COLD_UPPER :: jsnum where "TEMP_EXTREMELY_COLD_UPPER = Fin (- 4)"
definition TEMP_VERY_COLD_UPPER :: jsnum where "TEMP_VERY_COLD_UPPER = Fin 14"
definition TEMP_COLD_UPPER :: jsnum where "TEMP_COLD_UPPER = Fin 32"
definition TEMP_CHILLY_UPPER :: jsnum where "TEMP_CHILLY_UPPER = Fin 50"
definition TEMP_COOL_UPPER :: jsnum where "TEMP_COOL_UPPER = Fin 59"
definition TEMP_MILD_UPPER :: jsnum where "TEMP_MILD_UPPER = Fin 68"
definition TEMP_WARM_UPPER :: jsnum where "TEMP_WARM_UPPER = Fin 77"
definition TEMP_HOT_UPPER :: jsnum where "TEMP_HOT_UPPER = Fin 86"
definition TEMP_VERY_HOT_UPPER :: jsnum where "TEMP_VERY_HOT_UPPER = Fin 95"

definition UNKNOWN_VALUE :: string where "UNKNOWN_VALUE = ''Unknown''"

record alert =
  event :: jsval

record WeatherServiceData =
  current_condition :: string
  temperature_description :: string
  active_alerts :: "alert list"

definition conditionTable :: "(int \<times> string) list" where
  "conditionTable =
    [(200, ''Thunderstorm with Light Rain''),
     (201, ''Thunderstorm with Rain''),
     (202, ''Thunderstorm with Heavy Rain''),
     (210, ''Light Thunderstorm''),
     (211, ''Thunderstorm''),
     (212, ''Heavy Thunderstorm''),
     (221, ''Ragged Thunderstorm''),
     (230, ''Thunderstorm with Light Drizzle''),
     (231, ''Thunderstorm with Drizzle''),
     (232, ''Thunderstorm with Heavy Drizzle''),
     (300, ''Light Intensity Drizzle''),
     (301, ''Drizzle''),
     (302, ''Heavy Intensity Drizzle''),
     (310, ''Light Intensity Drizzle Rain''),
     (311, ''Drizzle Rain''),
     (312, ''Heavy Intensity Drizzle Rain''),
     (313, ''Shower Rain and Drizzle''),
     (314, ''Heavy Shower Rain and Drizzle''),
     (321, ''Shower Drizzle''),
     (500, ''Light Rain''),
     (501, ''Moderate Rain''),
     (502, ''Heavy Intensity Rain''),
     (503, ''Very Heavy Rain''),
     (504, ''Extreme Rain''),
     (511, ''Freezing Rain''),
     (520, ''Light Intensity Shower Rain''),
     (521, ''Shower Rain''),
     (522, ''Heavy Intensity Shower Rain''),
     (531, ''Ragged Shower Rain''),
     (600, ''Light Snow''),
     (601, ''Snow''),
     (602, ''Heavy Snow''),
     (611, ''Sleet''),
     (612, ''Light Shower Sleet''),
     (613, ''Shower Sleet''),
     (615, ''Light Rain and Snow''),
     (616, ''Rain and Snow''),
     (620, ''Light Shower Snow''),
     (621, ''Shower Snow''),
     (622, ''Heavy Shower Snow''),
     (701, ''Mist''),
     (711, ''Smoke''),
     (721, ''Haze''),
     (731, ''Sand, Dust Whirls''),
     (741, ''Fog''),
     (751, ''Sand''),
     (761, ''Dust''),
     (762, ''Volcanic Ash''),
     (771, ''Squalls''),
     (781, ''Tornado''),
     (800, ''Clear Sky''),
     (801, ''Few Clouds''),
     (802, ''Scattered Clouds''),
     (803, ''Broken Clouds''),
     (804, ''Overcast Clouds'')]"

definition conditionMap :: "int \<rightharpoonup> string" where
  "conditionMap = map_of conditionTable"

text \<open>
  \<^verbatim>\<open>conditionMap[conditionCode]\<close>: the key is the text the number prints as, and the keys
  of the table are the decimals of integers.
\<close>

definition conditionMap_at :: "jsnum \<Rightarrow> string option" where
  "conditionMap_at x =
     (case x of
        Fin r \<Rightarrow> if r = real_of_int \<lfloor>r\<rfloor> then conditionMap \<lfloor>r\<rfloor> else None
      | _ \<Rightarrow> None)"

text \<open>\<^verbatim>\<open>a || b\<close> on an optional string: the empty string is as false as undefined.\<close>

definition or_else :: "string option \<Rightarrow> string \<Rightarrow> string" where
  "or_else a b = (case a of Some s \<Rightarrow> if s \<noteq> [] then s else b | None \<Rightarrow> b)"

definition mapCurrentCondition :: "jsval \<Rightarrow> js_error + string" where
  "mapCurrentCondition data =
     bind_throw (getProp data ''current'') (\<lambda>current.
     bind_throw (getProp current ''weather'') (\<lambda>weather.
     bind_throw (getProp weather ''0'') (\<lambda>weatherData.
     bind_throw (getProp weatherData ''id'') (\<lambda>idv.
     bind_throw (parseInt10 idv) (\<lambda>conditionCode.
       if isNaN conditionCode then Inr UNKNOWN_VALUE
       else Inr (or_else (conditionMap_at conditionCode) UNKNOWN_VALUE))))))"

definition mapTempDescription :: "jsval \<Rightarrow> js_error + string" where
  "mapTempDescription data =
     bind_throw (getProp data ''current'') (\<lambda>current.
     bind_throw (getProp current ''feels_like'') (\<lambda>feels_like.
     bind_throw (parseFloat_val feels_like) (\<lambda>temp.
          if isNaN temp then Inr UNKNOWN_VALUE
          else if js_le temp TEMP_EXTREMELY_COLD_UPPER then Inr ''Extremely Cold''
          else if js_le temp TEMP_VERY_COLD_UPPER then Inr ''Very Cold''
          else if js_le temp TEMP_COLD_UPPER then Inr ''Cold''
          else if js_le temp TEMP_CHILLY_UPPER then Inr ''Chilly''
          else if js_le temp TEMP_COOL_UPPER then Inr ''Cool''
          else if js_le temp TEMP_MILD_UPPER then Inr ''Mild''
          else if js_le temp TEMP_WARM_UPPER then Inr ''Warm''
          else if js_le temp TEMP_HOT_UPPER then Inr ''Hot''
          else if js_le temp TEMP_VERY_HOT_UPPER then Inr ''Very Hot''
          else if js_gt temp TEMP_VERY_HOT_UPPER then Inr ''Extremely Hot''
          else Inr UNKNOWN_VALUE)))"

text \<open>A callback applied to the elements in order; the first throw ends the loop.\<close>

fun map_throw :: "('a \<Rightarrow> js_error + 'b) \<Rightarrow> 'a list \<Rightarrow> js_error + 'b list" where
  "map_throw f [] = Inr []"
| "map_throw f (x # xs) =
     bind_throw (f x) (\<lambda>y. bind_throw (map_throw f xs) (\<lambda>ys. Inr (y # ys)))"

text \<open>
  \<^verbatim>\<open>v.map(f)\<close>: only an array has the method; on any other value the call is a call of
  undefined or of a value that is no function, a TypeError.
\<close>

fun array_map :: "(jsval \<Rightarrow> js_error + 'b) \<Rightarrow> jsval \<Rightarrow> js_error + 'b list" where
  "array_map f (JArr xs) = map_throw f xs"
| "array_map f _ = Inl TypeError"

text \<open>
  \<^verbatim>\<open>alerts && alerts.length > 0\<close> reads the length only of a value that is true in a
  condition; the callback of \<^verbatim>\<open>map\<close> reads the \<^verbatim>\<open>event\<close> of each element.
\<close>

definition mapAlerts :: "jsval \<Rightarrow> js_error + alert list" where
  "mapAlerts data =
     bind_throw (getProp data ''alerts'') (\<lambda>alerts.
     bind_throw (if truthy alerts
                 then bind_throw (getProp alerts ''length'') (\<lambda>len.
                      bind_throw (ToNumber len) (\<lambda>n. Inr (js_gt n (Fin 0))))
                 else Inr False) (\<lambda>nonEmpty.
       if nonEmpty
       then array_map (\<lambda>alert. bind_throw (getProp alert ''event'') (\<lambda>ev. Inr \<lparr>event = ev\<rparr>))
              alerts
       else Inr []))"

definition mapToWeatherServiceData :: "jsval \<Rightarrow> js_error + WeatherServiceData" where
  "mapToWeatherServiceData data =
     bind_throw (mapCurrentCondition data) (\<lambda>c.
     bind_throw (mapTempDescription data) (\<lambda>t.
     bind_throw (mapAlerts data) (\<lambda>a.
       Inr \<lparr>current_condition = c, temperature_description = t, active_alerts = a\<rparr>)))"

section \<open>Coordinate validation (WeatherRoute.areCoordinatesValid)\<close>

definition INVALID_LATITUDE :: string where
  "INVALID_LATITUDE = ''Latitude must be between -90 and 90''"

definition INVALID_LONGITUDE :: string where
  "INVALID_LONGITUDE = ''Longitude must be between -180 and 180''"

definition INVALID_COORDINATES_TYPE :: string where
  "INVALID_COORDINATES_TYPE = ''Coordinates must be numbers''"

text \<open>The object the function returns; an absent field is None.\<close>

record validation =
  areValid :: bool
  latitude :: "jsnum option"
  longitude :: "jsnum option"
  errorMessage :: "string option"

definition invalid :: "string \<Rightarrow> validation" where
  "invalid msg = \<lparr>areValid = False, latitude = None, longitude = None, errorMessage = Some msg\<rparr>"

definition areCoordinatesValid :: "string \<Rightarrow> string \<Rightarrow> validation" where
  "areCoordinatesValid lat lon =
     (let latitude = parseFloat lat; longitude = parseFloat lon
      in if isNaN latitude \<or> isNaN longitude then invalid INVALID_COORDINATES_TYPE
         else if js_lt latitude (Fin (- 90)) \<or> js_gt latitude (Fin 90) then invalid INVALID_LATITUDE
         else if js_lt longitude (Fin (- 180)) \<or> js_gt longitude (Fin 180) then invalid INVALID_LONGITUDE
         else \<lparr>areValid = True, latitude = Some latitude, longitude = Some longitude,
               errorMessage = None\<rparr>)"

section \<open>OpenWeatherService\<close>

text \<open>
  What the loggers of the route and of the service are called with. The cause of a
  failure is whatever was thrown, a value of any type \<open>'c\<close>.
\<close>

datatype 'c meta =
    MetaError 'c
  | MetaNumber "jsnum option"
  | MetaFetch 'c jsnum jsnum

datatype 'c log_entry =
    LogHttp "string option" string string "string option \<times> string option"
  | LogError string "'c meta list"

text \<open>What the service throws: the rejection of the HTTP client or the throw of the mapper.\<close>

datatype 'c failure = Transport 'c | Mapping js_error

text \<open>
  \<^verbatim>\<open>OpenWeatherService.getWeatherByCoordinates\<close>. The HTTP client and the mapper are the
  collaborators the constructor receives: \<open>httpGet lat lon\<close> is the outcome of the GET
  request for the two coordinates, the cause of a rejection or the data of the response.
  The result is the rejection or the value of the promise, and what was logged.
\<close>

definition OpenWeatherService_getWeatherByCoordinates ::
  "(jsnum \<Rightarrow> jsnum \<Rightarrow> 'c + jsval) \<Rightarrow> (jsval \<Rightarrow> js_error + 'w) \<Rightarrow> jsnum \<Rightarrow> jsnum
     \<Rightarrow> ('c failure + 'w) \<times> 'c failure log_entry list" where
  "OpenWeatherService_getWeatherByCoordinates httpGet mapper lat lon =
     (case httpGet lat lon of
        Inl c \<Rightarrow>
          (Inl (Transport c),
           [LogError ''Error fetching weather data from OpenWeather API''
              [MetaFetch (Transport c) lat lon]])
      | Inr data \<Rightarrow>
          (case mapper data of
             Inl e \<Rightarrow>
               (Inl (Mapping e),
                [LogError ''Error fetching weather data from OpenWeather API''
                   [MetaFetch (Mapping e) lat lon]])
           | Inr weatherServiceResponse \<Rightarrow> (Inr weatherServiceResponse, [])))"

section \<open>WeatherRoute: the /coordinates handler\<close>

definition MISSING_COORDINATES :: string where
  "MISSING_COORDINATES = ''Latitude and Longitude are required''"

definition INVALID_COORDINATES :: string where
  "INVALID_COORDINATES = ''Invalid coordinates provided''"

definition FETCH_FAILED :: string where
  "FETCH_FAILED = ''Failed to fetch weather data''"

text \<open>The request: the address, the URL and the two query parameters, None when absent.\<close>

record request =
  ip :: "string option"
  url :: string
  query_lat :: "string option"
  query_lon :: "string option"

text \<open>The body is \<^verbatim>\<open>{error: message}\<close>, the message possibly undefined, or the weather data.\<close>

datatype 'w body = ErrorBody "string option" | DataBody 'w

record 'w response =
  status :: nat
  body :: "'w body"

text \<open>\<^verbatim>\<open>!s\<close> on a query parameter: true when it is absent or the empty string.\<close>

definition absent :: "string option \<Rightarrow> bool" where
  "absent s = (case s of None \<Rightarrow> True | Some v \<Rightarrow> v = [])"

text \<open>
  The handler, for any weather service: the response it sends and what is logged. Writing
  the response does not throw.
\<close>

definition getWeatherByCoordinates ::
  "(jsnum \<Rightarrow> jsnum \<Rightarrow> ('c + 'w) \<times> 'c log_entry list) \<Rightarrow> request
     \<Rightarrow> 'w response \<times> 'c log_entry list" where
  "getWeatherByCoordinates weatherService req =
     (let log0 = [LogHttp (ip req) ''GET'' (url req) (query_lat req, query_lon req)]
      in if absent (query_lat req) \<or> absent (query_lon req)
         then (\<lparr>status = 400, body = ErrorBody (Some MISSING_COORDINATES)\<rparr>, log0)
         else
           (let coordinateValidationResult =
                  areCoordinatesValid (case query_lat req of Some v \<Rightarrow> v | None \<Rightarrow> [])
                                      (case query_lon req of Some v \<Rightarrow> v | None \<Rightarrow> [])
            in if \<not> areValid coordinateValidationResult
               then (\<lparr>status = 400, body = ErrorBody (errorMessage coordinateValidationResult)\<rparr>,
                     log0 @ [LogError (or_else (errorMessage coordinateValidationResult)
                                         ''Unknown validation error'') []])
               else
                 (case (latitude coordinateValidationResult, longitude coordinateValidationResult) of
                    (Some la, Some lo) \<Rightarrow>
                      (case weatherService la lo of
                         (Inr weatherData, l) \<Rightarrow> (\<lparr>status = 200, body = DataBody weatherData\<rparr>, log0 @ l)
                       | (Inl error, l) \<Rightarrow>
                           (\<lparr>status = 500, body = ErrorBody (Some FETCH_FAILED)\<rparr>,
                            log0 @ l @ [LogError FETCH_FAILED
                                          [MetaError error, MetaNumber (Some la), MetaNumber (Some lo)]]))
                  | _ \<Rightarrow> (\<lparr>status = 400, body = ErrorBody (Some INVALID_COORDINATES)\<rparr>, log0))))"

text \<open>The endpoint as the entry point wires it: the route over the service over the mapper.\<close>

definition coordinates_endpoint ::
  "(jsnum \<Rightarrow> jsnum \<Rightarrow> 'c + jsval) \<Rightarrow> request
     \<Rightarrow> WeatherServiceData response \<times> 'c failure log_entry list" where
  "coordinates_endpoint httpGet req =
     getWeatherByCoordinates
       (OpenWeatherService_getWeatherByCoordinates httpGet mapToWeatherServiceData) req"

section \<open>The API key middleware\<close>

record environment =
  NODE_ENV :: "string option"
  WEATHER_SERVICE_API_KEY :: "string option"

text \<open>
  The header \<^verbatim>\<open>x-api-key\<close> is a string or absent. A query parameter is a string, or an
  array or a nested object when the query string repeats or indexes the name; those are
  true in a condition and equal to no string.
\<close>

datatype qparam = QString string | QComposite

datatype outcome = Next | Respond nat string

text \<open>Whether a possibly undefined parameter is true in a condition.\<close>

fun truthy_param :: "qparam option \<Rightarrow> bool" where
  "truthy_param None = False"
| "truthy_param (Some (QString k)) = (k \<noteq> [])"
| "truthy_param (Some QComposite) = True"

text \<open>
  The middleware, given the environment, the \<^verbatim>\<open>x-api-key\<close> header and the \<^verbatim>\<open>apikey\<close> query
  parameter: it calls the next handler or responds with a status and an error.
\<close>

definition apiKeyValidator :: "environment \<Rightarrow> string option \<Rightarrow> qparam option \<Rightarrow> outcome" where
  "apiKeyValidator env header apikey =
     (if NODE_ENV env = Some ''development'' then Next
      else
        (let apiKey = (if truthy_param (map_option QString header)
                       then map_option QString header else apikey)
         in if \<not> truthy_param apiKey then Respond 401 ''Unauthorized''
            else if apiKey \<noteq> map_option QString (WEATHER_SERVICE_API_KEY env)
                 then Respond 403 ''Forbidden''
            else Next))"

section \<open>Properties of the number reader\<close>

lemmas reader_defs = parseFloat_def read_decimal_def read_exponent_def is_ws_def is_digit_def
  dec_val_def digit_val_def starts_with_def scale10_def to_double_def round_half_even_def
  scale2_def norm_up.simps norm_down.simps

text \<open>The doubles that the decimals of the examples below are read as.\<close>

lemma to_double_examples:
  "to_double 40.7 = Fin (2864007888030925 / 2 ^ 46)"
  "to_double 40.7128 = Fin (2864908607956399 / 2 ^ 46)"
  "to_double (- 74.006) = Fin (- (2603854640806101 / 2 ^ 45))"
  "to_double (1 / 10 ^ 6) = Fin (4722366482869645 / 2 ^ 72)"
  by (simp_all add: reader_defs)

lemma takeWhile_digits:
  assumes "list_all is_digit ds" "t = [] \<or> \<not> is_digit (hd t)"
  shows "takeWhile is_digit (ds @ t) = ds" "dropWhile is_digit (ds @ t) = t"
proof -
  have t: "takeWhile is_digit t = []" "dropWhile is_digit t = t"
    using assms(2) by (cases t; auto)+
  have d: "\<forall>x\<in>set ds. is_digit x"
    using assms(1) by (simp add: list_all_iff)
  show "takeWhile is_digit (ds @ t) = ds"
    using d t by (simp add: takeWhile_append2)
  show "dropWhile is_digit (ds @ t) = t"
    using d t by (simp add: dropWhile_append2)
qed

lemma digit_facts:
  "is_digit c \<Longrightarrow>
     \<not> is_ws c \<and> c \<noteq> CHR ''-'' \<and> c \<noteq> CHR ''+'' \<and> c \<noteq> CHR ''I'' \<and> c \<noteq> CHR ''.''"
  by (auto simp: is_digit_def is_ws_def)

lemma not_digit_dot: "\<not> is_digit CHR ''.''"
  by (simp add: is_digit_def)

lemma read_exponent_none:
  "t = [] \<or> (hd t \<noteq> CHR ''e'' \<and> hd t \<noteq> CHR ''E'') \<Longrightarrow> read_exponent t = (0, t)"
  by (cases t) (auto simp: read_exponent_def)

lemma read_decimal_fraction:
  assumes dsA: "list_all is_digit ds" "ds \<noteq> []" and fsA: "list_all is_digit fs"
    and t: "t = [] \<or> (\<not> is_digit (hd t) \<and> hd t \<noteq> CHR ''e'' \<and> hd t \<noteq> CHR ''E'')"
  shows "read_decimal (ds @ CHR ''.'' # fs @ t) =
           Some (real (dec_val ds) + real (dec_val fs) / 10 ^ length fs, t)"
proof -
  have 1: "takeWhile is_digit (ds @ CHR ''.'' # fs @ t) = ds"
          "dropWhile is_digit (ds @ CHR ''.'' # fs @ t) = CHR ''.'' # fs @ t"
    using takeWhile_digits [OF dsA(1), of "CHR ''.'' # fs @ t"] not_digit_dot by simp_all
  have 2: "takeWhile is_digit (fs @ t) = fs" "dropWhile is_digit (fs @ t) = t"
    using takeWhile_digits [OF fsA, of t] t by auto
  have 3: "read_exponent t = (0, t)"
    using t by (intro read_exponent_none) auto
  show ?thesis
    by (simp add: read_decimal_def 1 2 3 dsA(2) scale10_def)
qed

text \<open>
  Digits, a dot and digits are read as the double of their decimal value, whatever
  follows them, as long as what follows does not go on with a digit or an exponent mark.
\<close>

lemma parseFloat_trailing:
  assumes dsA: "list_all is_digit ds" "ds \<noteq> []" and fsA: "list_all is_digit fs"
    and t: "t = [] \<or> (\<not> is_digit (hd t) \<and> hd t \<noteq> CHR ''e'' \<and> hd t \<noteq> CHR ''E'')"
  shows "parseFloat (ds @ CHR ''.'' # fs @ t) =
           to_double (real (dec_val ds) + real (dec_val fs) / 10 ^ length fs)"
proof -
  obtain c cs where c: "ds = c # cs" "is_digit c"
    using dsA by (cases ds) auto
  have f: "\<not> is_ws c" "c \<noteq> CHR ''-''" "c \<noteq> CHR ''+''" "c \<noteq> CHR ''I''"
    using digit_facts [OF c(2)] by auto
  have 1: "dropWhile is_ws (ds @ CHR ''.'' # fs @ t) = ds @ CHR ''.'' # fs @ t"
    using c f by simp
  have 2: "read_sign (ds @ CHR ''.'' # fs @ t) = (False, ds @ CHR ''.'' # fs @ t)"
    using c f by simp
  have 3: "\<not> starts_with ''Infinity'' (ds @ CHR ''.'' # fs @ t)"
    using c f by (simp add: starts_with_def)
  show ?thesis
    by (simp add: parseFloat_def 1 2 3 read_decimal_fraction [OF dsA fsA t])
qed

text \<open>
  A string fails to parse exactly when, after the leading white space and an optional
  sign, it starts neither with \<^verbatim>\<open>Infinity\<close> nor with a digit nor with a dot and a digit.
\<close>

lemma parseFloat_NaN_iff:
  "parseFloat s = NaN \<longleftrightarrow>
     (let u = snd (read_sign (dropWhile is_ws s))
      in \<not> starts_with ''Infinity'' u \<and>
         (u = [] \<or> \<not> (is_digit (hd u) \<or>
                         (hd u = CHR ''.'' \<and> tl u \<noteq> [] \<and> is_digit (hd (tl u))))))"
proof -
  obtain neg u where u: "read_sign (dropWhile is_ws s) = (neg, u)"
    by (cases "read_sign (dropWhile is_ws s)")
  have d: "read_decimal u = None \<longleftrightarrow>
      (u = [] \<or> \<not> (is_digit (hd u) \<or>
                         (hd u = CHR ''.'' \<and> tl u \<noteq> [] \<and> is_digit (hd (tl u)))))"
  proof (cases u)
    case Nil
    then show ?thesis by (simp add: read_decimal_def)
  next
    case (Cons c r)
    show ?thesis
    proof (cases "is_digit c")
      case True
      then show ?thesis
        using Cons by (simp add: read_decimal_def Let_def split: prod.splits)
    next
      case False
      then show ?thesis
        using Cons by (cases r) (auto simp: read_decimal_def Let_def split: prod.splits)
    qed
  qed
  have n: "\<And>x. to_double x \<noteq> NaN"
    by (simp add: to_double_def Let_def split: prod.splits)
  show ?thesis
    using d n by (auto simp: parseFloat_def u split: option.splits)
qed

text \<open>
  At the bounds the value is the double: a decimal that is nearer to 90 than to any other
  double is read as 90, and the validation accepts it.
\<close>

lemma areCoordinatesValid_rounds_at_bound:
  "parseFloat ''90.00000000000000001'' = Fin 90"
  "areCoordinatesValid ''90.00000000000000001'' ''-180.00000000000000001'' =
     \<lparr>areValid = True, latitude = Some (Fin 90), longitude = Some (Fin (- 180)),
      errorMessage = None\<rparr>"
  by (simp_all add: areCoordinatesValid_def js_gt_def reader_defs)

section \<open>Properties of the coordinate validation\<close>

lemma areCoordinatesValid_defined:
  "areValid (areCoordinatesValid slat slon) \<Longrightarrow>
     \<exists>a b. latitude (areCoordinatesValid slat slon) = Some (Fin a) \<and>
           longitude (areCoordinatesValid slat slon) = Some (Fin b) \<and>
           - 90 \<le> a \<and> a \<le> 90 \<and> - 180 \<le> b \<and> b \<le> 180"
  by (cases "parseFloat slat"; cases "parseFloat slon")
     (auto simp: areCoordinatesValid_def invalid_def js_gt_def Let_def split: if_splits)

lemma areCoordinatesValid_message:
  "errorMessage (areCoordinatesValid slat slon) \<noteq> Some INVALID_COORDINATES"
  by (simp add: areCoordinatesValid_def invalid_def Let_def INVALID_COORDINATES_def
      INVALID_COORDINATES_TYPE_def INVALID_LATITUDE_def INVALID_LONGITUDE_def)

text \<open>
  C3. Whenever the latitude string or the longitude string does not parse as a number
  (\<^verbatim>\<open>parseFloat\<close> gives NaN), whichever of the two it is and whatever the other one is, in
  range or not, the validation fails with the message \<^verbatim>\<open>Coordinates must be numbers\<close>.
\<close>

theorem areCoordinatesValid_not_a_number:
  "parseFloat slat = NaN \<or> parseFloat slon = NaN \<Longrightarrow>
   areCoordinatesValid slat slon =
     \<lparr>areValid = False, latitude = None, longitude = None,
      errorMessage = Some ''Coordinates must be numbers''\<rparr>"
  by (auto simp: areCoordinatesValid_def invalid_def INVALID_COORDINATES_TYPE_def Let_def)

text \<open>
  The malformed string as the longitude beside a latitude out of range, and as the
  latitude beside a longitude out of range.
\<close>

theorem areCoordinatesValid_not_a_number_witness:
  "parseFloat ''100'' = Fin 100 \<and> parseFloat ''abc'' = NaN \<and> parseFloat ''-200'' = Fin (- 200) \<and>
   areCoordinatesValid ''100'' ''abc'' =
     \<lparr>areValid = False, latitude = None, longitude = None,
      errorMessage = Some ''Coordinates must be numbers''\<rparr> \<and>
   areCoordinatesValid ''abc'' ''-200'' =
     \<lparr>areValid = False, latitude = None, longitude = None,
      errorMessage = Some ''Coordinates must be numbers''\<rparr>"
proof -
  have a: "parseFloat ''abc'' = NaN" by (simp add: reader_defs)
  have b: "parseFloat ''100'' = Fin 100" by (simp add: reader_defs)
  have c: "parseFloat ''-200'' = Fin (- 200)" by (simp add: reader_defs)
  show ?thesis
    using areCoordinatesValid_not_a_number [of "''100''" "''abc''"]
      areCoordinatesValid_not_a_number [of "''abc''" "''-200''"] a b c
    by simp
qed

text \<open>
  C6. When both strings parse as numbers and the latitude, the double that the string is
  read as, is outside \<open>[-90, 90]\<close> (an infinity included), the validation fails with \<^verbatim>\<open>Latitude must be between -90 and 90\<close>,
  whatever the longitude is: the latitude is checked first. When the latitude is inside
  and the longitude is outside \<open>[-180, 180]\<close>, it fails with
  \<^verbatim>\<open>Longitude must be between -180 and 180\<close>.
\<close>

theorem areCoordinatesValid_out_of_range:
  "((parseFloat slat = Fin a \<and> (a < - 90 \<or> 90 < a) \<or> parseFloat slat = NegInf \<or>
     parseFloat slat = PosInf) \<and> parseFloat slon \<noteq> NaN \<longrightarrow>
    areCoordinatesValid slat slon =
      \<lparr>areValid = False, latitude = None, longitude = None,
       errorMessage = Some ''Latitude must be between -90 and 90''\<rparr>)
   \<and>
   (parseFloat slat = Fin a \<and> - 90 \<le> a \<and> a \<le> 90 \<and>
    (parseFloat slon = Fin b \<and> (b < - 180 \<or> 180 < b) \<or> parseFloat slon = NegInf \<or>
     parseFloat slon = PosInf) \<longrightarrow>
    areCoordinatesValid slat slon =
      \<lparr>areValid = False, latitude = None, longitude = None,
       errorMessage = Some ''Longitude must be between -180 and 180''\<rparr>)"
proof (intro conjI)
  show "(parseFloat slat = Fin a \<and> (a < - 90 \<or> 90 < a) \<or> parseFloat slat = NegInf \<or>
     parseFloat slat = PosInf) \<and> parseFloat slon \<noteq> NaN \<longrightarrow>
    areCoordinatesValid slat slon =
      \<lparr>areValid = False, latitude = None, longitude = None,
       errorMessage = Some ''Latitude must be between -90 and 90''\<rparr>"
    by (cases "parseFloat slon")
       (auto simp: areCoordinatesValid_def invalid_def INVALID_LATITUDE_def Let_def js_gt_def)
  show "parseFloat slat = Fin a \<and> - 90 \<le> a \<and> a \<le> 90 \<and>
    (parseFloat slon = Fin b \<and> (b < - 180 \<or> 180 < b) \<or> parseFloat slon = NegInf \<or>
     parseFloat slon = PosInf) \<longrightarrow>
    areCoordinatesValid slat slon =
      \<lparr>areValid = False, latitude = None, longitude = None,
       errorMessage = Some ''Longitude must be between -180 and 180''\<rparr>"
    by (cases "parseFloat slon")
       (auto simp: areCoordinatesValid_def invalid_def INVALID_LONGITUDE_def Let_def js_gt_def)
qed

text \<open>
  A latitude of 100 beside a longitude that is out of range itself gives the latitude
  message; a latitude of 40.7128 beside a longitude of -200 gives the longitude message.
\<close>

theorem areCoordinatesValid_out_of_range_witness:
  "parseFloat ''100'' = Fin 100 \<and> parseFloat ''-200'' = Fin (- 200) \<and>
   parseFloat ''40.7128'' = Fin (2864908607956399 / 2 ^ 46) \<and>
   areCoordinatesValid ''100'' ''-200'' =
     \<lparr>areValid = False, latitude = None, longitude = None,
      errorMessage = Some ''Latitude must be between -90 and 90''\<rparr> \<and>
   areCoordinatesValid ''40.7128'' ''-200'' =
     \<lparr>areValid = False, latitude = None, longitude = None,
      errorMessage = Some ''Longitude must be between -180 and 180''\<rparr>"
proof -
  have a: "parseFloat ''100'' = Fin 100" by (simp add: reader_defs)
  have b: "parseFloat ''-200'' = Fin (- 200)" by (simp add: reader_defs)
  have c: "parseFloat ''40.7128'' = Fin (2864908607956399 / 2 ^ 46)"
    by (simp add: reader_defs)
  show ?thesis
    using areCoordinatesValid_out_of_range [of "''100''" 100 "''-200''" "- 200"]
      areCoordinatesValid_out_of_range
        [of "''40.7128''" "2864908607956399 / 2 ^ 46" "''-200''" "- 200"] a b c
    by simp
qed

text \<open>
  C9. The validation reads its inputs with \<^verbatim>\<open>parseFloat\<close>: whenever the numeric prefixes
  of the two strings are a latitude in \<open>[-90, 90]\<close> and a longitude in \<open>[-180, 180]\<close>, it
  succeeds and returns these two numbers. What follows the prefix is ignored: digits, a
  dot and digits followed by any text that starts with neither a digit nor an exponent
  mark parse as the double of the decimal number in front. So \<^verbatim>\<open>40.7abc\<close> is accepted as
  the latitude 40.7, the double that the literal 40.7 denotes.
\<close>

theorem areCoordinatesValid_numeric_prefix:
  "(parseFloat slat = Fin a \<and> parseFloat slon = Fin b \<and>
    - 90 \<le> a \<and> a \<le> 90 \<and> - 180 \<le> b \<and> b \<le> 180 \<longrightarrow>
    areCoordinatesValid slat slon =
      \<lparr>areValid = True, latitude = Some (Fin a), longitude = Some (Fin b),
       errorMessage = None\<rparr>)
   \<and>
   (list_all is_digit ds \<and> ds \<noteq> [] \<and> list_all is_digit fs \<and>
    (t = [] \<or> (\<not> is_digit (hd t) \<and> hd t \<noteq> CHR ''e'' \<and> hd t \<noteq> CHR ''E'')) \<longrightarrow>
    parseFloat (ds @ ''.'' @ fs @ t) =
      to_double (real (dec_val ds) + real (dec_val fs) / 10 ^ length fs))
   \<and>
   areCoordinatesValid ''40.7abc'' ''-74.0060'' =
     \<lparr>areValid = True, latitude = Some (to_double 40.7),
      longitude = Some (to_double (- 74.006)), errorMessage = None\<rparr>
   \<and> to_double 40.7 = Fin (2864007888030925 / 2 ^ 46)
   \<and> to_double (- 74.006) = Fin (- (2603854640806101 / 2 ^ 45))"
proof (intro conjI impI)
  assume "parseFloat slat = Fin a \<and> parseFloat slon = Fin b \<and>
    - 90 \<le> a \<and> a \<le> 90 \<and> - 180 \<le> b \<and> b \<le> 180"
  then show "areCoordinatesValid slat slon =
      \<lparr>areValid = True, latitude = Some (Fin a), longitude = Some (Fin b),
       errorMessage = None\<rparr>"
    by (simp add: areCoordinatesValid_def js_gt_def not_less)
next
  assume "list_all is_digit ds \<and> ds \<noteq> [] \<and> list_all is_digit fs \<and>
    (t = [] \<or> (\<not> is_digit (hd t) \<and> hd t \<noteq> CHR ''e'' \<and> hd t \<noteq> CHR ''E''))"
  then show "parseFloat (ds @ ''.'' @ fs @ t) =
      to_double (real (dec_val ds) + real (dec_val fs) / 10 ^ length fs)"
    using parseFloat_trailing [of ds fs t] by simp
next
  have "parseFloat ''40.7abc'' = Fin (2864007888030925 / 2 ^ 46)"
    "parseFloat ''-74.0060'' = Fin (- (2603854640806101 / 2 ^ 45))"
    by (simp_all add: reader_defs)
  then show "areCoordinatesValid ''40.7abc'' ''-74.0060'' =
     \<lparr>areValid = True, latitude = Some (to_double 40.7),
      longitude = Some (to_double (- 74.006)), errorMessage = None\<rparr>"
    unfolding to_double_examples by (simp add: areCoordinatesValid_def js_gt_def)
next
  show "to_double 40.7 = Fin (2864007888030925 / 2 ^ 46)"
    by (rule to_double_examples)
next
  show "to_double (- 74.006) = Fin (- (2603854640806101 / 2 ^ 45))"
    by (rule to_double_examples)
qed

text \<open>
  The two strings \<^verbatim>\<open>89.5 degrees\<close> and \<^verbatim>\<open>-179.25W\<close>: both carry text after the number,
  both are accepted.
\<close>

theorem areCoordinatesValid_numeric_prefix_witness:
  "parseFloat ''89.5 degrees'' = Fin 89.5 \<and> parseFloat ''-179.25W'' = Fin (- 179.25) \<and>
   areCoordinatesValid ''89.5 degrees'' ''-179.25W'' =
     \<lparr>areValid = True, latitude = Some (Fin 89.5), longitude = Some (Fin (- 179.25)),
      errorMessage = None\<rparr> \<and>
   list_all is_digit ''89'' \<and> list_all is_digit ''5'' \<and> \<not> is_digit (hd '' degrees'') \<and>
   parseFloat (''89'' @ ''.'' @ ''5'' @ '' degrees'') =
     to_double (real (dec_val ''89'') + real (dec_val ''5'') / 10 ^ length ''5'')"
proof -
  have a: "parseFloat ''89.5 degrees'' = Fin 89.5" by (simp add: reader_defs)
  have b: "parseFloat ''-179.25W'' = Fin (- 179.25)" by (simp add: reader_defs)
  have c: "list_all is_digit ''89''" "list_all is_digit ''5''" "\<not> is_digit (hd '' degrees'')"
    by (simp_all add: is_digit_def)
  show ?thesis
    using areCoordinatesValid_numeric_prefix
            [of "''89.5 degrees''" "89.5" "''-179.25W''" "- 179.25" "''89''" "''5''" "'' degrees''"]
      a b c
    by simp
qed

text \<open>
  C10. Whenever the validation returns \<open>areValid = True\<close>, it returns a latitude and a
  longitude that are both defined, finite numbers. So the handler never takes the branch
  that answers \<^verbatim>\<open>Invalid coordinates provided\<close>: for every weather service and every
  request, the body of the response is not that error.
\<close>

theorem invalid_coordinates_unreachable:
  "(areValid (areCoordinatesValid slat slon) \<longrightarrow>
      (\<exists>a b. latitude (areCoordinatesValid slat slon) = Some (Fin a) \<and>
             longitude (areCoordinatesValid slat slon) = Some (Fin b)))
   \<and> body (fst (getWeatherByCoordinates weatherService req)) \<noteq>
       ErrorBody (Some ''Invalid coordinates provided'')"
proof (intro conjI impI)
  assume "areValid (areCoordinatesValid slat slon)"
  then show "\<exists>a b. latitude (areCoordinatesValid slat slon) = Some (Fin a) \<and>
             longitude (areCoordinatesValid slat slon) = Some (Fin b)"
    using areCoordinatesValid_defined by blast
next
  let ?r = "areCoordinatesValid (case query_lat req of Some v \<Rightarrow> v | None \<Rightarrow> [])
                                (case query_lon req of Some v \<Rightarrow> v | None \<Rightarrow> [])"
  show "body (fst (getWeatherByCoordinates weatherService req)) \<noteq>
       ErrorBody (Some ''Invalid coordinates provided'')"
  proof (cases "areValid ?r")
    case False
    then show ?thesis
      using areCoordinatesValid_message [of "case query_lat req of Some v \<Rightarrow> v | None \<Rightarrow> []"
          "case query_lon req of Some v \<Rightarrow> v | None \<Rightarrow> []"]
      by (simp add: getWeatherByCoordinates_def Let_def INVALID_COORDINATES_def
          MISSING_COORDINATES_def)
  next
    case True
    then obtain a b where "latitude ?r = Some (Fin a)" "longitude ?r = Some (Fin b)"
      using areCoordinatesValid_defined by blast
    then show ?thesis
      using True
      by (simp add: getWeatherByCoordinates_def Let_def MISSING_COORDINATES_def
          FETCH_FAILED_def split: prod.splits sum.splits)
  qed
qed

text \<open>
  Valid coordinates with a service that fails: the coordinates are defined and the
  response is the fetch failure, not the error of the unreachable branch.
\<close>

theorem invalid_coordinates_unreachable_witness:
  "areValid (areCoordinatesValid ''40.7128'' ''-74.0060'') \<and>
   (\<exists>a b. latitude (areCoordinatesValid ''40.7128'' ''-74.0060'') = Some (Fin a) \<and>
          longitude (areCoordinatesValid ''40.7128'' ''-74.0060'') = Some (Fin b)) \<and>
   body (fst (getWeatherByCoordinates (\<lambda>x y. (Inl (), []) :: (unit + unit) \<times> unit log_entry list)
                \<lparr>ip = None, url = ''/coordinates'', query_lat = Some ''40.7128'',
                 query_lon = Some ''-74.0060''\<rparr>)) \<noteq>
     ErrorBody (Some ''Invalid coordinates provided'')"
proof -
  have p: "parseFloat ''40.7128'' = Fin (2864908607956399 / 2 ^ 46)"
    "parseFloat ''-74.0060'' = Fin (- (2603854640806101 / 2 ^ 45))"
    by (simp_all add: reader_defs)
  have v: "areValid (areCoordinatesValid ''40.7128'' ''-74.0060'')"
    by (simp add: areCoordinatesValid_def p js_gt_def)
  show ?thesis
    using v invalid_coordinates_unreachable [of "''40.7128''" "''-74.0060''"
        "\<lambda>x y. (Inl (), []) :: (unit + unit) \<times> unit log_entry list"
        "\<lparr>ip = None, url = ''/coordinates'', query_lat = Some ''40.7128'',
          query_lon = Some ''-74.0060''\<rparr>"]
    by simp
qed


section \<open>Properties of the mapper\<close>

lemma js_error_is_TypeError: "(e :: js_error) = TypeError"
  by (cases e)

lemma no_value_TypeError: "(\<nexists>y. x = Inr y) \<Longrightarrow> x = Inl TypeError"
  by (cases x) (simp_all add: js_error_is_TypeError)

lemma bind_throw_Inr_iff: "bind_throw r f = Inr y \<longleftrightarrow> (\<exists>v. r = Inr v \<and> f v = Inr y)"
  by (cases r) (simp_all add: bind_throw_def)

lemma getProp_Inr_iff: "(\<exists>u. getProp v k = Inr u) \<longleftrightarrow> v \<noteq> JUndefined \<and> v \<noteq> JNull"
  by (cases v) simp_all

lemma getProp_Inl_iff: "getProp v k = Inl TypeError \<longleftrightarrow> v = JUndefined \<or> v = JNull"
  by (cases v) simp_all

lemma getProp_defined:
  "v \<noteq> JUndefined \<Longrightarrow> v \<noteq> JNull \<Longrightarrow> \<exists>u. getProp v k = Inr u"
  by (cases v) simp_all

lemma conditionMap_nonempty:
  assumes "conditionMap n = Some d"
  shows "d \<noteq> []"
proof -
  have "(n, d) \<in> set conditionTable"
    using assms by (simp add: conditionMap_def map_of_SomeD)
  moreover have "\<forall>(k, v) \<in> set conditionTable. v \<noteq> []"
    by (simp add: conditionTable_def)
  ultimately show ?thesis by blast
qed

lemma or_else_conditionMap_at:
  "or_else (conditionMap_at x) u = (case conditionMap_at x of Some d \<Rightarrow> d | None \<Rightarrow> u)"
proof (cases "conditionMap_at x")
  case None
  then show ?thesis by (simp add: or_else_def)
next
  case (Some d)
  then obtain n where "conditionMap n = Some d"
    by (cases x) (auto simp: conditionMap_at_def split: if_splits)
  then have "d \<noteq> []" by (rule conditionMap_nonempty)
  then show ?thesis using Some by (simp add: or_else_def)
qed

lemma conditionMap_at_int: "conditionMap_at (Fin (real_of_int n)) = conditionMap n"
  by (simp add: conditionMap_at_def)

text \<open>An integer below \<open>10^21\<close> prints as its digits, which \<^verbatim>\<open>parseInt\<close> reads back.\<close>

lemma parseInt_num_int:
  assumes "\<bar>n\<bar> < 10 ^ 21"
  shows "parseInt_num (Fin (real_of_int n)) = Fin (real_of_int n)"
proof (cases "n = 0")
  case True
  then show ?thesis by (simp add: parseInt_num_def)
next
  case False
  have 1: "\<bar>real_of_int n\<bar> < 10 ^ 21"
  proof -
    have "real_of_int \<bar>n\<bar> < real_of_int (10 ^ 21)"
      using assms by (simp only: of_int_less_iff)
    then show ?thesis by simp
  qed
  have "1 \<le> \<bar>n\<bar>" using False by linarith
  then have 2: "1 \<le> \<bar>real_of_int n\<bar>" by linarith
  have "(4722366482869645 :: real) / 2 ^ 72 < 1" by simp
  then have 3: "js_le (to_double (1 / 10 ^ 6)) (Fin \<bar>real_of_int n\<bar>)"
    unfolding to_double_examples using 2 by (simp add: js_le_def)
  have 4: "(if real_of_int n < 0 then - real_of_int \<lfloor>- real_of_int n\<rfloor>
            else real_of_int \<lfloor>real_of_int n\<rfloor>) = real_of_int n"
    by simp
  have 5: "real_of_int n \<noteq> 0" using False by simp
  show ?thesis
    unfolding parseInt_num_def using 1 3 4 5 by (simp del: of_int_less_iff)
qed

lemma mapCurrentCondition_eq:
  assumes "getProp data ''current'' = Inr cur" "getProp cur ''weather'' = Inr w"
    "getProp w ''0'' = Inr wd" "getProp wd ''id'' = Inr c"
  shows "mapCurrentCondition data =
    (case parseInt10 c of
       Inl e \<Rightarrow> Inl e
     | Inr x \<Rightarrow>
         Inr (if isNaN x then ''Unknown''
              else (case conditionMap_at x of Some d \<Rightarrow> d | None \<Rightarrow> ''Unknown'')))"
  using assms
  by (simp add: mapCurrentCondition_def bind_throw_def or_else_conditionMap_at UNKNOWN_VALUE_def
      split: sum.splits)

lemma mapCurrentCondition_Inr_iff:
  "(\<exists>r. mapCurrentCondition data = Inr r) \<longleftrightarrow>
     (\<exists>cur w wd c. getProp data ''current'' = Inr cur \<and> getProp cur ''weather'' = Inr w \<and>
        getProp w ''0'' = Inr wd \<and> getProp wd ''id'' = Inr c \<and> \<not> to_string_throws c)"
proof
  assume "\<exists>r. mapCurrentCondition data = Inr r"
  then show "\<exists>cur w wd c. getProp data ''current'' = Inr cur \<and>
      getProp cur ''weather'' = Inr w \<and> getProp w ''0'' = Inr wd \<and>
      getProp wd ''id'' = Inr c \<and> \<not> to_string_throws c"
    by (auto simp: mapCurrentCondition_def bind_throw_Inr_iff parseInt10_def split: if_splits)
next
  assume "\<exists>cur w wd c. getProp data ''current'' = Inr cur \<and>
      getProp cur ''weather'' = Inr w \<and> getProp w ''0'' = Inr wd \<and>
      getProp wd ''id'' = Inr c \<and> \<not> to_string_throws c"
  then obtain cur w wd c where h: "getProp data ''current'' = Inr cur"
    "getProp cur ''weather'' = Inr w" "getProp w ''0'' = Inr wd" "getProp wd ''id'' = Inr c"
    "\<not> to_string_throws c" by blast
  show "\<exists>r. mapCurrentCondition data = Inr r"
    using mapCurrentCondition_eq [OF h(1-4)] h(5) by (simp add: parseInt10_def)
qed

lemma map_throw_ok:
  "\<forall>x \<in> set xs. \<exists>y. f x = Inr y \<Longrightarrow>
     \<exists>ys. map_throw f xs = Inr ys \<and> length ys = length xs \<and>
          (\<forall>i < length xs. f (xs ! i) = Inr (ys ! i))"
proof (induction xs)
  case Nil
  then show ?case by simp
next
  case (Cons x xs)
  then obtain y where y: "f x = Inr y" by auto
  from Cons obtain ys where ys: "map_throw f xs = Inr ys" "length ys = length xs"
    "\<forall>i < length xs. f (xs ! i) = Inr (ys ! i)" by auto
  have "map_throw f (x # xs) = Inr (y # ys)"
    by (simp add: y ys bind_throw_def)
  moreover have "\<forall>i < length (x # xs). f ((x # xs) ! i) = Inr ((y # ys) ! i)"
    using y ys(3) by (auto simp: nth_Cons split: nat.splits)
  ultimately show ?case using ys(2) by auto
qed

lemma map_throw_fails:
  "\<exists>x \<in> set xs. f x = Inl TypeError \<Longrightarrow> map_throw f xs = Inl TypeError"
proof (induction xs)
  case Nil
  then show ?case by simp
next
  case (Cons x xs)
  show ?case
  proof (cases "f x")
    case (Inl e)
    then show ?thesis by (cases e) (simp add: bind_throw_def)
  next
    case (Inr y)
    then have "\<exists>x \<in> set xs. f x = Inl TypeError" using Cons.prems by auto
    then have "map_throw f xs = Inl TypeError" by (rule Cons.IH)
    then show ?thesis by (simp add: Inr bind_throw_def)
  qed
qed

lemma map_throw_Inr_iff:
  "(\<exists>ys. map_throw f xs = Inr ys) \<longleftrightarrow> (\<forall>x \<in> set xs. \<exists>y. f x = Inr y)"
proof
  assume "\<exists>ys. map_throw f xs = Inr ys"
  then show "\<forall>x \<in> set xs. \<exists>y. f x = Inr y"
  proof (induction xs)
    case Nil
    then show ?case by simp
  next
    case (Cons x xs)
    then show ?case by (auto simp: bind_throw_Inr_iff)
  qed
next
  assume "\<forall>x \<in> set xs. \<exists>y. f x = Inr y"
  then show "\<exists>ys. map_throw f xs = Inr ys"
    using map_throw_ok [of xs f] by blast
qed

lemma mapAlerts_array:
  assumes "getProp data ''alerts'' = Inr (JArr xs)"
  shows "mapAlerts data =
     map_throw (\<lambda>alert. bind_throw (getProp alert ''event'') (\<lambda>ev. Inr \<lparr>event = ev\<rparr>)) xs"
  using assms by (cases xs) (simp_all add: mapAlerts_def bind_throw_def ToNumber_def js_gt_def)

text \<open>What the alerts mapping does on each kind of value of \<^verbatim>\<open>alerts\<close>.\<close>

lemma mapAlerts_by_kind:
  assumes "getProp data ''alerts'' = Inr al"
  shows "mapAlerts data =
    (case al of
       JArr xs \<Rightarrow>
         map_throw (\<lambda>alert. bind_throw (getProp alert ''event'') (\<lambda>ev. Inr \<lparr>event = ev\<rparr>)) xs
     | JStr s \<Rightarrow> if s = [] then Inr [] else Inl TypeError
     | JObj kvs \<Rightarrow>
         (case ToNumber (case map_of kvs ''length'' of Some v \<Rightarrow> v | None \<Rightarrow> JUndefined) of
            Inl e \<Rightarrow> Inl e
          | Inr n \<Rightarrow> if js_gt n (Fin 0) then Inl TypeError else Inr [])
     | _ \<Rightarrow> Inr [])"
proof (cases al)
  case (JArr xs)
  then show ?thesis using mapAlerts_array assms by simp
next
  case (JObj kvs)
  then show ?thesis
    using assms by (simp add: mapAlerts_def bind_throw_def split: sum.splits)
qed (use assms in \<open>simp_all add: mapAlerts_def bind_throw_def ToNumber_def js_gt_def\<close>)

lemma mapAlerts_Inr_iff:
  "(\<exists>a. mapAlerts data = Inr a) \<longleftrightarrow>
     (\<exists>al. getProp data ''alerts'' = Inr al \<and>
        (al = JUndefined \<or> al = JNull \<or> (\<exists>b. al = JBool b) \<or> (\<exists>x. al = JNum x) \<or> al = JStr [] \<or>
         (\<exists>xs. al = JArr xs \<and> (\<forall>x \<in> set xs. x \<noteq> JUndefined \<and> x \<noteq> JNull)) \<or>
         (\<exists>kvs len n. al = JObj kvs \<and> getProp al ''length'' = Inr len \<and>
            ToNumber len = Inr n \<and> \<not> js_gt n (Fin 0))))"
proof (cases "getProp data ''alerts''")
  case (Inl e)
  then show ?thesis by (simp add: mapAlerts_def bind_throw_def)
next
  case (Inr al)
  let ?f = "\<lambda>alert. bind_throw (getProp alert ''event'') (\<lambda>ev. Inr \<lparr>event = ev\<rparr>)"
  have f: "\<And>x. (\<exists>y. ?f x = Inr y) \<longleftrightarrow> x \<noteq> JUndefined \<and> x \<noteq> JNull"
    using getProp_Inr_iff by (auto simp: bind_throw_Inr_iff)
  note k = mapAlerts_by_kind [OF Inr]
  show ?thesis
  proof (cases al)
    case (JArr xs)
    have "(\<exists>a. mapAlerts data = Inr a) \<longleftrightarrow> (\<forall>x \<in> set xs. x \<noteq> JUndefined \<and> x \<noteq> JNull)"
      using k JArr map_throw_Inr_iff [of ?f xs] f by simp
    then show ?thesis using Inr JArr by simp
  next
    case (JObj kvs)
    then show ?thesis
      using k Inr by (auto split: sum.splits if_splits)
  qed (use k Inr in \<open>auto split: if_splits\<close>)
qed

lemma mapAlerts_empty:
  assumes "getProp data ''alerts'' = Inr al" "mapAlerts data = Inr a"
    "\<nexists>xs. al = JArr xs \<and> xs \<noteq> []"
  shows "a = []"
  using mapAlerts_by_kind [OF assms(1)] assms(2,3)
  by (cases al) (auto split: sum.splits if_splits)

lemma mapTempDescription_eq:
  assumes "getProp data ''current'' = Inr cur" "getProp cur ''feels_like'' = Inr fl"
    "parseFloat_val fl = Inr (Fin t)"
  shows "mapTempDescription data =
    Inr (if t \<le> - 4 then ''Extremely Cold'' else if t \<le> 14 then ''Very Cold''
         else if t \<le> 32 then ''Cold'' else if t \<le> 50 then ''Chilly''
         else if t \<le> 59 then ''Cool'' else if t \<le> 68 then ''Mild''
         else if t \<le> 77 then ''Warm'' else if t \<le> 86 then ''Hot''
         else if t \<le> 95 then ''Very Hot'' else ''Extremely Hot'')"
  using assms
  by (simp add: mapTempDescription_def bind_throw_def js_le_def js_gt_def
      TEMP_EXTREMELY_COLD_UPPER_def TEMP_VERY_COLD_UPPER_def TEMP_COLD_UPPER_def
      TEMP_CHILLY_UPPER_def TEMP_COOL_UPPER_def TEMP_MILD_UPPER_def TEMP_WARM_UPPER_def
      TEMP_HOT_UPPER_def TEMP_VERY_HOT_UPPER_def less_eq_real_def)

lemma mapTempDescription_other:
  assumes "getProp data ''current'' = Inr cur" "getProp cur ''feels_like'' = Inr fl"
  shows "parseFloat_val fl = Inr NaN \<Longrightarrow> mapTempDescription data = Inr ''Unknown''"
    "parseFloat_val fl = Inr NegInf \<Longrightarrow> mapTempDescription data = Inr ''Extremely Cold''"
    "parseFloat_val fl = Inr PosInf \<Longrightarrow> mapTempDescription data = Inr ''Extremely Hot''"
    "parseFloat_val fl = Inl e \<Longrightarrow> mapTempDescription data = Inl TypeError"
  using assms
  by (simp_all add: mapTempDescription_def bind_throw_def js_le_def js_gt_def UNKNOWN_VALUE_def
      TEMP_EXTREMELY_COLD_UPPER_def TEMP_VERY_COLD_UPPER_def TEMP_COLD_UPPER_def
      TEMP_CHILLY_UPPER_def TEMP_COOL_UPPER_def TEMP_MILD_UPPER_def TEMP_WARM_UPPER_def
      TEMP_HOT_UPPER_def TEMP_VERY_HOT_UPPER_def js_error_is_TypeError)

lemma mapTempDescription_Inr_iff:
  "(\<exists>r. mapTempDescription data = Inr r) \<longleftrightarrow>
     (\<exists>cur fl. getProp data ''current'' = Inr cur \<and> getProp cur ''feels_like'' = Inr fl \<and>
        \<not> to_string_throws fl)"
proof
  assume "\<exists>r. mapTempDescription data = Inr r"
  then show "\<exists>cur fl. getProp data ''current'' = Inr cur \<and>
      getProp cur ''feels_like'' = Inr fl \<and> \<not> to_string_throws fl"
    by (auto simp: mapTempDescription_def bind_throw_Inr_iff parseFloat_val_def split: if_splits)
next
  assume "\<exists>cur fl. getProp data ''current'' = Inr cur \<and>
      getProp cur ''feels_like'' = Inr fl \<and> \<not> to_string_throws fl"
  then obtain cur fl where h: "getProp data ''current'' = Inr cur"
    "getProp cur ''feels_like'' = Inr fl" "\<not> to_string_throws fl" by blast
  then have p: "parseFloat_val fl = Inr (parseFloat_read fl)"
    by (simp add: parseFloat_val_def)
  show "\<exists>r. mapTempDescription data = Inr r"
  proof (cases "parseFloat_read fl")
    case NaN
    then show ?thesis using mapTempDescription_other(1) [OF h(1,2)] p by simp
  next
    case NegInf
    then show ?thesis using mapTempDescription_other(2) [OF h(1,2)] p by simp
  next
    case (Fin t)
    then show ?thesis using mapTempDescription_eq [OF h(1,2)] p by simp
  next
    case PosInf
    then show ?thesis using mapTempDescription_other(3) [OF h(1,2)] p by simp
  qed
qed



text \<open>
  C1 (as amended). The mapper returns a value exactly for the payloads in which
  \<^verbatim>\<open>current\<close>, \<^verbatim>\<open>current.weather\<close> and the first entry of \<^verbatim>\<open>current.weather\<close> are present
  (neither undefined nor null), the \<^verbatim>\<open>id\<close> of that entry and the feels-like value convert
  to a string (neither is an object with an own \<^verbatim>\<open>toString\<close> property or an array that
  holds one), and \<^verbatim>\<open>alerts\<close> is none of: a list with an undefined or null entry, a
  non-empty string, an object whose \<^verbatim>\<open>length\<close> converts to a positive number or does not
  convert. For every other payload it throws a TypeError. In a value it returns, the
  condition is \<^verbatim>\<open>Unknown\<close> when the code does not parse as an integer, the temperature is
  \<^verbatim>\<open>Unknown\<close> when the feels-like value does not parse as a number, and the alerts are
  empty unless \<^verbatim>\<open>alerts\<close> is a non-empty list.
\<close>

theorem mapToWeatherServiceData_degrades:
  "((\<exists>r. mapToWeatherServiceData data = Inr r) \<longleftrightarrow>
      (\<exists>cur w wd c fl al.
         getProp data ''current'' = Inr cur \<and> getProp cur ''weather'' = Inr w \<and>
         getProp w ''0'' = Inr wd \<and> getProp wd ''id'' = Inr c \<and> \<not> to_string_throws c \<and>
         getProp cur ''feels_like'' = Inr fl \<and> \<not> to_string_throws fl \<and>
         getProp data ''alerts'' = Inr al \<and>
         (al = JUndefined \<or> al = JNull \<or> (\<exists>b. al = JBool b) \<or> (\<exists>x. al = JNum x) \<or> al = JStr [] \<or>
          (\<exists>xs. al = JArr xs \<and> (\<forall>x \<in> set xs. x \<noteq> JUndefined \<and> x \<noteq> JNull)) \<or>
          (\<exists>kvs len n. al = JObj kvs \<and> getProp al ''length'' = Inr len \<and>
             ToNumber len = Inr n \<and> \<not> js_gt n (Fin 0)))))
   \<and> ((\<nexists>r. mapToWeatherServiceData data = Inr r) \<longrightarrow>
        mapToWeatherServiceData data = Inl TypeError)
   \<and> (mapToWeatherServiceData data = Inr r \<and>
       getProp data ''current'' = Inr cur \<and> getProp cur ''weather'' = Inr w \<and>
       getProp w ''0'' = Inr wd \<and> getProp wd ''id'' = Inr c \<and>
       getProp cur ''feels_like'' = Inr fl \<and> getProp data ''alerts'' = Inr al \<longrightarrow>
       (parseInt10 c = Inr NaN \<longrightarrow> current_condition r = ''Unknown'') \<and>
       (parseFloat_val fl = Inr NaN \<longrightarrow> temperature_description r = ''Unknown'') \<and>
       ((\<nexists>xs. al = JArr xs \<and> xs \<noteq> []) \<longrightarrow> active_alerts r = []))"
proof (intro conjI impI)
  have split: "(\<exists>r. mapToWeatherServiceData data = Inr r) \<longleftrightarrow>
      (\<exists>c. mapCurrentCondition data = Inr c) \<and> (\<exists>t. mapTempDescription data = Inr t) \<and>
      (\<exists>a. mapAlerts data = Inr a)"
    by (auto simp: mapToWeatherServiceData_def bind_throw_Inr_iff)
  show "(\<exists>r. mapToWeatherServiceData data = Inr r) \<longleftrightarrow>
      (\<exists>cur w wd c fl al.
         getProp data ''current'' = Inr cur \<and> getProp cur ''weather'' = Inr w \<and>
         getProp w ''0'' = Inr wd \<and> getProp wd ''id'' = Inr c \<and> \<not> to_string_throws c \<and>
         getProp cur ''feels_like'' = Inr fl \<and> \<not> to_string_throws fl \<and>
         getProp data ''alerts'' = Inr al \<and>
         (al = JUndefined \<or> al = JNull \<or> (\<exists>b. al = JBool b) \<or> (\<exists>x. al = JNum x) \<or> al = JStr [] \<or>
          (\<exists>xs. al = JArr xs \<and> (\<forall>x \<in> set xs. x \<noteq> JUndefined \<and> x \<noteq> JNull)) \<or>
          (\<exists>kvs len n. al = JObj kvs \<and> getProp al ''length'' = Inr len \<and>
             ToNumber len = Inr n \<and> \<not> js_gt n (Fin 0))))"
    (is "?L \<longleftrightarrow> ?R")
  proof
    assume ?L
    then obtain cur w wd c where 1: "getProp data ''current'' = Inr cur"
        "getProp cur ''weather'' = Inr w" "getProp w ''0'' = Inr wd" "getProp wd ''id'' = Inr c"
        "\<not> to_string_throws c"
      using split mapCurrentCondition_Inr_iff [of data] by blast
    from \<open>?L\<close> obtain cur' fl where 2: "getProp data ''current'' = Inr cur'"
        "getProp cur' ''feels_like'' = Inr fl" "\<not> to_string_throws fl"
      using split mapTempDescription_Inr_iff [of data] by blast
    have 3: "cur' = cur" using 1(1) 2(1) by simp
    from \<open>?L\<close> obtain al where 4: "getProp data ''alerts'' = Inr al"
        "(al = JUndefined \<or> al = JNull \<or> (\<exists>b. al = JBool b) \<or> (\<exists>x. al = JNum x) \<or> al = JStr [] \<or>
          (\<exists>xs. al = JArr xs \<and> (\<forall>x \<in> set xs. x \<noteq> JUndefined \<and> x \<noteq> JNull)) \<or>
          (\<exists>kvs len n. al = JObj kvs \<and> getProp al ''length'' = Inr len \<and>
             ToNumber len = Inr n \<and> \<not> js_gt n (Fin 0)))"
      using split mapAlerts_Inr_iff [of data] by blast
    show ?R
      using 1 2 3 4 by blast
  next
    assume ?R
    then obtain cur w wd c fl al where h: "getProp data ''current'' = Inr cur"
        "getProp cur ''weather'' = Inr w" "getProp w ''0'' = Inr wd" "getProp wd ''id'' = Inr c"
        "\<not> to_string_throws c" "getProp cur ''feels_like'' = Inr fl" "\<not> to_string_throws fl"
        "getProp data ''alerts'' = Inr al"
        "(al = JUndefined \<or> al = JNull \<or> (\<exists>b. al = JBool b) \<or> (\<exists>x. al = JNum x) \<or> al = JStr [] \<or>
          (\<exists>xs. al = JArr xs \<and> (\<forall>x \<in> set xs. x \<noteq> JUndefined \<and> x \<noteq> JNull)) \<or>
          (\<exists>kvs len n. al = JObj kvs \<and> getProp al ''length'' = Inr len \<and>
             ToNumber len = Inr n \<and> \<not> js_gt n (Fin 0)))"
      by blast
    have "\<exists>c. mapCurrentCondition data = Inr c"
      using mapCurrentCondition_Inr_iff [of data] h(1-5) by blast
    moreover have "\<exists>t. mapTempDescription data = Inr t"
      using mapTempDescription_Inr_iff [of data] h(1,6,7) by blast
    moreover have "\<exists>a. mapAlerts data = Inr a"
      using mapAlerts_Inr_iff [of data] h(8,9) by blast
    ultimately show ?L using split by blast
  qed
next
  assume "\<nexists>r. mapToWeatherServiceData data = Inr r"
  then show "mapToWeatherServiceData data = Inl TypeError"
    by (rule no_value_TypeError)
next
  assume h: "mapToWeatherServiceData data = Inr r \<and>
       getProp data ''current'' = Inr cur \<and> getProp cur ''weather'' = Inr w \<and>
       getProp w ''0'' = Inr wd \<and> getProp wd ''id'' = Inr c \<and>
       getProp cur ''feels_like'' = Inr fl \<and> getProp data ''alerts'' = Inr al"
  then have r: "mapCurrentCondition data = Inr (current_condition r)"
    "mapTempDescription data = Inr (temperature_description r)"
    "mapAlerts data = Inr (active_alerts r)"
    by (auto simp: mapToWeatherServiceData_def bind_throw_Inr_iff)
  {
    assume "parseInt10 c = Inr NaN"
    then show "current_condition r = ''Unknown''"
      using mapCurrentCondition_eq [of data cur w wd c] h r(1) by simp
  }
  {
    assume "parseFloat_val fl = Inr NaN"
    then show "temperature_description r = ''Unknown''"
      using mapTempDescription_other(1) [of data cur fl] h r(2) by simp
  }
  {
    assume "\<nexists>xs. al = JArr xs \<and> xs \<noteq> []"
    then show "active_alerts r = []"
      using mapAlerts_empty [of data al "active_alerts r"] h r(3) by blast
  }
qed

text \<open>
  A payload with a first weather entry without a code, a null feels-like value and the
  number 42 for the alerts: the mapper returns, and all three fields fall back.
\<close>

theorem mapToWeatherServiceData_degrades_witness:
  "\<exists>r. mapToWeatherServiceData
          (JObj [(''current'', JObj [(''weather'', JArr [JObj []]), (''feels_like'', JNull)]),
                 (''alerts'', JNum (Fin 42))]) = Inr r \<and>
        current_condition r = ''Unknown'' \<and> temperature_description r = ''Unknown'' \<and>
        active_alerts r = []"
proof -
  let ?wd = "JObj []"
  let ?w = "JArr [?wd]"
  let ?cur = "JObj [(''weather'', ?w), (''feels_like'', JNull)]"
  let ?al = "JNum (Fin 42)"
  let ?d = "JObj [(''current'', ?cur), (''alerts'', ?al)]"
  have h: "getProp ?d ''current'' = Inr ?cur" "getProp ?cur ''weather'' = Inr ?w"
    "getProp ?w ''0'' = Inr ?wd" "getProp ?wd ''id'' = Inr JUndefined"
    "getProp ?cur ''feels_like'' = Inr JNull" "getProp ?d ''alerts'' = Inr ?al"
    by (simp_all add: index_of_def is_digit_def dec_val_def digit_val_def)
  have p: "\<not> to_string_throws JUndefined" "\<not> to_string_throws JNull"
    "parseInt10 JUndefined = Inr NaN" "parseFloat_val JNull = Inr NaN"
    "\<nexists>xs. ?al = JArr xs \<and> xs \<noteq> []"
    by (simp_all add: parseInt10_def parseFloat_val_def)
  note th = mapToWeatherServiceData_degrades [of ?d _ ?cur ?w ?wd JUndefined JNull ?al]
  have "\<exists>r. mapToWeatherServiceData ?d = Inr r"
    using th [THEN conjunct1] h p(1,2) by blast
  then obtain r where r: "mapToWeatherServiceData ?d = Inr r" by blast
  have "current_condition r = ''Unknown'' \<and> temperature_description r = ''Unknown'' \<and>
        active_alerts r = []"
    using mapToWeatherServiceData_degrades [of ?d r ?cur ?w ?wd JUndefined JNull ?al,
        THEN conjunct2, THEN conjunct2] r h p(3,4,5)
    by blast
  then show ?thesis using r by blast
qed

text \<open>
  C1 (as stated) fails: on the payload \<^verbatim>\<open>{}\<close>, which has no \<^verbatim>\<open>current\<close>, on a payload
  whose \<^verbatim>\<open>current\<close> has no \<^verbatim>\<open>weather\<close>, and on a payload whose code is the object
  \<^verbatim>\<open>{toString: 1}\<close>, the mapper throws a TypeError.
\<close>

theorem mapToWeatherServiceData_raises:
  "mapToWeatherServiceData (JObj []) = Inl TypeError \<and>
   mapToWeatherServiceData
     (JObj [(''current'', JObj [(''feels_like'', JNum (Fin 75))]), (''alerts'', JArr [])]) =
     Inl TypeError \<and>
   mapToWeatherServiceData
     (JObj [(''current'',
             JObj [(''weather'', JArr [JObj [(''id'', JObj [(''toString'', JNum (Fin 1))])]]),
                   (''feels_like'', JNum (Fin 75))]),
            (''alerts'', JArr [])]) =
     Inl TypeError"
  by (simp add: mapToWeatherServiceData_def mapCurrentCondition_def bind_throw_def
      parseInt10_def index_of_def is_digit_def dec_val_def digit_val_def)

text \<open>
  C2 (as amended). For a payload whose \<^verbatim>\<open>current\<close> is present: a feels-like value that is
  a number \<open>t\<close> (or reads as one) gives one of the ten bucket names, each name exactly on
  its interval, \<open>t \<le> -4\<close>, \<open>-4 < t \<le> 14\<close>, ..., \<open>86 < t \<le> 95\<close>, \<open>95 < t\<close>; the intervals
  partition the reals and put each boundary into the colder bucket. A feels-like value
  that converts to a string and does not read as a number (undefined, null, a boolean,
  NaN, an empty array, a text such as \<^verbatim>\<open>invalid\<close>, an object without an own \<^verbatim>\<open>toString\<close>
  property) gives \<^verbatim>\<open>Unknown\<close>. A feels-like value that does not convert to a string, such
  as an object with an own \<^verbatim>\<open>toString\<close> property, throws a TypeError, and so does a payload
  that is undefined or null or whose \<^verbatim>\<open>current\<close> is.
\<close>

theorem mapTempDescription_buckets:
  "(getProp data ''current'' = Inr cur \<and> getProp cur ''feels_like'' = Inr fl \<longrightarrow>
      (parseFloat_val fl = Inr (Fin t) \<longrightarrow>
        (\<exists>r. mapTempDescription data = Inr r \<and>
           r \<in> set [''Extremely Cold'', ''Very Cold'', ''Cold'', ''Chilly'', ''Cool'', ''Mild'',
                     ''Warm'', ''Hot'', ''Very Hot'', ''Extremely Hot''] \<and>
           (r = ''Extremely Cold'' \<longleftrightarrow> t \<le> - 4) \<and>
           (r = ''Very Cold'' \<longleftrightarrow> - 4 < t \<and> t \<le> 14) \<and>
           (r = ''Cold'' \<longleftrightarrow> 14 < t \<and> t \<le> 32) \<and>
           (r = ''Chilly'' \<longleftrightarrow> 32 < t \<and> t \<le> 50) \<and>
           (r = ''Cool'' \<longleftrightarrow> 50 < t \<and> t \<le> 59) \<and>
           (r = ''Mild'' \<longleftrightarrow> 59 < t \<and> t \<le> 68) \<and>
           (r = ''Warm'' \<longleftrightarrow> 68 < t \<and> t \<le> 77) \<and>
           (r = ''Hot'' \<longleftrightarrow> 77 < t \<and> t \<le> 86) \<and>
           (r = ''Very Hot'' \<longleftrightarrow> 86 < t \<and> t \<le> 95) \<and>
           (r = ''Extremely Hot'' \<longleftrightarrow> 95 < t)))
      \<and> (fl = JNum (Fin t) \<longrightarrow> parseFloat_val fl = Inr (Fin t))
      \<and> (parseFloat_val fl = Inr NaN \<longrightarrow> mapTempDescription data = Inr ''Unknown'')
      \<and> (fl = JUndefined \<or> fl = JNull \<or> fl = JBool b \<or> fl = JArr [] \<or> fl = JNum NaN \<or>
          fl = JStr ''invalid'' \<or> (fl = JObj kvs \<and> map_of kvs ''toString'' = None) \<longrightarrow>
          parseFloat_val fl = Inr NaN)
      \<and> (to_string_throws fl \<longrightarrow> mapTempDescription data = Inl TypeError)
      \<and> (fl = JObj kvs \<and> map_of kvs ''toString'' \<noteq> None \<longrightarrow> to_string_throws fl))
   \<and> (data = JUndefined \<or> data = JNull \<or>
       (getProp data ''current'' = Inr cur \<and> (cur = JUndefined \<or> cur = JNull)) \<longrightarrow>
       mapTempDescription data = Inl TypeError)"
proof (intro conjI impI)
  assume h: "getProp data ''current'' = Inr cur \<and> getProp cur ''feels_like'' = Inr fl"
    and "parseFloat_val fl = Inr (Fin t)"
  then have eq: "mapTempDescription data =
    Inr (if t \<le> - 4 then ''Extremely Cold'' else if t \<le> 14 then ''Very Cold''
         else if t \<le> 32 then ''Cold'' else if t \<le> 50 then ''Chilly''
         else if t \<le> 59 then ''Cool'' else if t \<le> 68 then ''Mild''
         else if t \<le> 77 then ''Warm'' else if t \<le> 86 then ''Hot''
         else if t \<le> 95 then ''Very Hot'' else ''Extremely Hot'')"
    using mapTempDescription_eq [of data cur fl t] by blast
  show "(\<exists>r. mapTempDescription data = Inr r \<and>
           r \<in> set [''Extremely Cold'', ''Very Cold'', ''Cold'', ''Chilly'', ''Cool'', ''Mild'',
                     ''Warm'', ''Hot'', ''Very Hot'', ''Extremely Hot''] \<and>
           (r = ''Extremely Cold'' \<longleftrightarrow> t \<le> - 4) \<and>
           (r = ''Very Cold'' \<longleftrightarrow> - 4 < t \<and> t \<le> 14) \<and>
           (r = ''Cold'' \<longleftrightarrow> 14 < t \<and> t \<le> 32) \<and>
           (r = ''Chilly'' \<longleftrightarrow> 32 < t \<and> t \<le> 50) \<and>
           (r = ''Cool'' \<longleftrightarrow> 50 < t \<and> t \<le> 59) \<and>
           (r = ''Mild'' \<longleftrightarrow> 59 < t \<and> t \<le> 68) \<and>
           (r = ''Warm'' \<longleftrightarrow> 68 < t \<and> t \<le> 77) \<and>
           (r = ''Hot'' \<longleftrightarrow> 77 < t \<and> t \<le> 86) \<and>
           (r = ''Very Hot'' \<longleftrightarrow> 86 < t \<and> t \<le> 95) \<and>
           (r = ''Extremely Hot'' \<longleftrightarrow> 95 < t))"
    unfolding eq by (intro exI conjI[rotated]) simp_all
next
  assume "fl = JNum (Fin t)"
  then show "parseFloat_val fl = Inr (Fin t)"
    by (simp add: parseFloat_val_def)
next
  assume "getProp data ''current'' = Inr cur \<and> getProp cur ''feels_like'' = Inr fl"
    and "parseFloat_val fl = Inr NaN"
  then show "mapTempDescription data = Inr ''Unknown''"
    using mapTempDescription_other(1) [of data cur fl] by blast
next
  assume "fl = JUndefined \<or> fl = JNull \<or> fl = JBool b \<or> fl = JArr [] \<or> fl = JNum NaN \<or>
          fl = JStr ''invalid'' \<or> (fl = JObj kvs \<and> map_of kvs ''toString'' = None)"
  moreover have "parseFloat ''invalid'' = NaN"
    by (simp add: reader_defs)
  ultimately show "parseFloat_val fl = Inr NaN"
    by (auto simp: parseFloat_val_def)
next
  assume "getProp data ''current'' = Inr cur \<and> getProp cur ''feels_like'' = Inr fl"
    and "to_string_throws fl"
  then show "mapTempDescription data = Inl TypeError"
    using mapTempDescription_other(4) [of data cur fl TypeError]
    by (simp add: parseFloat_val_def)
next
  assume "fl = JObj kvs \<and> map_of kvs ''toString'' \<noteq> None"
  then show "to_string_throws fl" by simp
next
  assume "data = JUndefined \<or> data = JNull \<or>
       (getProp data ''current'' = Inr cur \<and> (cur = JUndefined \<or> cur = JNull))"
  then show "mapTempDescription data = Inl TypeError"
    by (auto simp: mapTempDescription_def bind_throw_def)
qed

text \<open>
  The boundary 32 is \<^verbatim>\<open>Cold\<close>, not \<^verbatim>\<open>Chilly\<close>; the text \<^verbatim>\<open>invalid\<close> and the object \<^verbatim>\<open>{}\<close>
  are \<^verbatim>\<open>Unknown\<close>.
\<close>

theorem mapTempDescription_buckets_witness:
  "mapTempDescription (JObj [(''current'', JObj [(''feels_like'', JNum (Fin 32))])]) =
     Inr ''Cold'' \<and>
   mapTempDescription (JObj [(''current'', JObj [(''feels_like'', JStr ''invalid'')])]) =
     Inr ''Unknown'' \<and>
   mapTempDescription (JObj [(''current'', JObj [(''feels_like'', JObj [])])]) =
     Inr ''Unknown''"
proof -
  let ?c = "\<lambda>v. JObj [(''feels_like'', v)]"
  let ?d = "\<lambda>v. JObj [(''current'', ?c v)]"
  have a: "\<And>v. getProp (?d v) ''current'' = Inr (?c v) \<and> getProp (?c v) ''feels_like'' = Inr v"
    by simp
  have "parseFloat_val (JNum (Fin 32)) = Inr (Fin 32)"
    by (simp add: parseFloat_val_def)
  then have "mapTempDescription (?d (JNum (Fin 32))) = Inr ''Cold''"
    using mapTempDescription_buckets [of "?d (JNum (Fin 32))" "?c (JNum (Fin 32))"
        "JNum (Fin 32)" 32] a [of "JNum (Fin 32)"]
    by auto
  moreover have "mapTempDescription (?d (JStr ''invalid'')) = Inr ''Unknown''"
  proof -
    note th = mapTempDescription_buckets [of "?d (JStr ''invalid'')" "?c (JStr ''invalid'')"
        "JStr ''invalid''" 0 True "[]", THEN conjunct1, THEN mp, OF a]
    have n: "parseFloat_val (JStr ''invalid'') = Inr NaN"
      by (rule mp [OF th [THEN conjunct2, THEN conjunct2, THEN conjunct2, THEN conjunct1]])
         simp
    show ?thesis
      by (rule mp [OF th [THEN conjunct2, THEN conjunct2, THEN conjunct1] n])
  qed
  moreover have "mapTempDescription (?d (JObj [])) = Inr ''Unknown''"
  proof -
    note th = mapTempDescription_buckets [of "?d (JObj [])" "?c (JObj [])"
        "JObj []" 0 True "[]", THEN conjunct1, THEN mp, OF a]
    have n: "parseFloat_val (JObj []) = Inr NaN"
      by (rule mp [OF th [THEN conjunct2, THEN conjunct2, THEN conjunct2, THEN conjunct1]])
         simp
    show ?thesis
      by (rule mp [OF th [THEN conjunct2, THEN conjunct2, THEN conjunct1] n])
  qed
  ultimately show ?thesis by simp
qed

text \<open>
  C2 (as stated) fails: the feels-like value \<^verbatim>\<open>{toString: 1}\<close> is no number, and the mapper
  throws a TypeError on it instead of returning \<^verbatim>\<open>Unknown\<close>; so it does on the payload
  \<^verbatim>\<open>{}\<close>, whose feels-like value is absent with its \<^verbatim>\<open>current\<close>.
\<close>

theorem mapTempDescription_raises:
  "mapTempDescription
     (JObj [(''current'', JObj [(''feels_like'', JObj [(''toString'', JNum (Fin 1))])])]) =
     Inl TypeError \<and>
   mapTempDescription (JObj []) = Inl TypeError"
  by (simp add: mapTempDescription_def bind_throw_def parseFloat_val_def)

text \<open>
  C4 (as amended). For a payload with a first weather entry, the condition is a function
  of the integer that \<^verbatim>\<open>parseInt\<close> reads from the \<^verbatim>\<open>id\<close> of that entry: the entry of the
  fixed table for that integer, and \<^verbatim>\<open>Unknown\<close> when the table has none. An integer code
  given as a number is read as itself; 800 gives \<^verbatim>\<open>Clear Sky\<close>, 500 \<^verbatim>\<open>Light Rain\<close>, 600
  \<^verbatim>\<open>Light Snow\<close>. A code that is absent from the entry (undefined), null, a boolean, NaN,
  an empty array, a text that starts with no integer or an object without an own
  \<^verbatim>\<open>toString\<close> property gives \<^verbatim>\<open>Unknown\<close>. A code that does not convert to a string, such
  as an object with an own \<^verbatim>\<open>toString\<close> property, throws a TypeError, and so does a payload
  in which \<^verbatim>\<open>current\<close>, \<^verbatim>\<open>current.weather\<close> or its first entry is undefined or null.
\<close>

theorem mapCurrentCondition_lookup:
  "(getProp data ''current'' = Inr cur \<and> getProp cur ''weather'' = Inr w \<and>
    getProp w ''0'' = Inr wd \<and> getProp wd ''id'' = Inr c \<longrightarrow>
      mapCurrentCondition data =
        (case parseInt10 c of
           Inl e \<Rightarrow> Inl e
         | Inr x \<Rightarrow>
             Inr (if isNaN x then ''Unknown''
                  else (case conditionMap_at x of Some d \<Rightarrow> d | None \<Rightarrow> ''Unknown'')))
      \<and> (c = JNum (Fin (real_of_int n)) \<and> \<bar>n\<bar> < 10 ^ 21 \<longrightarrow>
          mapCurrentCondition data =
            Inr (case conditionMap n of Some d \<Rightarrow> d | None \<Rightarrow> ''Unknown''))
      \<and> (c = JNum (Fin 800) \<longrightarrow> mapCurrentCondition data = Inr ''Clear Sky'')
      \<and> (c = JNum (Fin 500) \<longrightarrow> mapCurrentCondition data = Inr ''Light Rain'')
      \<and> (c = JNum (Fin 600) \<longrightarrow> mapCurrentCondition data = Inr ''Light Snow'')
      \<and> (parseInt10 c = Inr (Fin (real_of_int n)) \<and> n \<notin> dom conditionMap \<longrightarrow>
          mapCurrentCondition data = Inr ''Unknown'')
      \<and> (c = JUndefined \<or> c = JNull \<or> c = JBool b \<or> c = JNum NaN \<or> c = JArr [] \<or>
          c = JStr ''invalid'' \<or> (c = JStr s \<and> parseInt_str s = NaN) \<or>
          (c = JObj kvs \<and> map_of kvs ''toString'' = None) \<longrightarrow>
          mapCurrentCondition data = Inr ''Unknown'')
      \<and> (to_string_throws c \<longrightarrow> mapCurrentCondition data = Inl TypeError)
      \<and> (c = JObj kvs \<and> map_of kvs ''toString'' \<noteq> None \<longrightarrow> to_string_throws c))
   \<and> conditionMap 800 = Some ''Clear Sky'' \<and> conditionMap 500 = Some ''Light Rain''
   \<and> conditionMap 600 = Some ''Light Snow''
   \<and> (data = JUndefined \<or> data = JNull \<or>
       (getProp data ''current'' = Inr cur \<and> (cur = JUndefined \<or> cur = JNull)) \<or>
       (getProp data ''current'' = Inr cur \<and> getProp cur ''weather'' = Inr w \<and>
        (w = JUndefined \<or> w = JNull)) \<or>
       (getProp data ''current'' = Inr cur \<and> getProp cur ''weather'' = Inr w \<and>
        getProp w ''0'' = Inr wd \<and> (wd = JUndefined \<or> wd = JNull)) \<longrightarrow>
       mapCurrentCondition data = Inl TypeError)"
proof -
  have t: "conditionMap 800 = Some ''Clear Sky''" "conditionMap 500 = Some ''Light Rain''"
    "conditionMap 600 = Some ''Light Snow''"
    by (simp_all add: conditionMap_def conditionTable_def)
  have i: "\<And>m. \<bar>m\<bar> < 10 ^ 21 \<Longrightarrow>
      parseInt10 (JNum (Fin (real_of_int m))) = Inr (Fin (real_of_int m))"
    using parseInt_num_int by (simp add: parseInt10_def)
  have k: "parseInt10 (JNum (Fin 800)) = Inr (Fin (real_of_int 800))"
    "parseInt10 (JNum (Fin 500)) = Inr (Fin (real_of_int 500))"
    "parseInt10 (JNum (Fin 600)) = Inr (Fin (real_of_int 600))"
    using i [of 800] i [of 500] i [of 600] by simp_all
  have cm: "conditionMap_at (Fin 800) = conditionMap 800"
    "conditionMap_at (Fin 500) = conditionMap 500"
    "conditionMap_at (Fin 600) = conditionMap 600"
    using conditionMap_at_int [of 800] conditionMap_at_int [of 500] conditionMap_at_int [of 600]
    by simp_all
  have u: "parseInt_str ''invalid'' = NaN"
    by (simp add: parseInt_str_def is_ws_def is_digit_def)
  have nav: "data = JUndefined \<or> data = JNull \<or>
       (getProp data ''current'' = Inr cur \<and> (cur = JUndefined \<or> cur = JNull)) \<or>
       (getProp data ''current'' = Inr cur \<and> getProp cur ''weather'' = Inr w \<and>
        (w = JUndefined \<or> w = JNull)) \<or>
       (getProp data ''current'' = Inr cur \<and> getProp cur ''weather'' = Inr w \<and>
        getProp w ''0'' = Inr wd \<and> (wd = JUndefined \<or> wd = JNull)) \<longrightarrow>
       mapCurrentCondition data = Inl TypeError"
    by (auto simp: mapCurrentCondition_def bind_throw_def)
  have main: "mapCurrentCondition data =
        (case parseInt10 c of
           Inl e \<Rightarrow> Inl e
         | Inr x \<Rightarrow>
             Inr (if isNaN x then ''Unknown''
                  else (case conditionMap_at x of Some d \<Rightarrow> d | None \<Rightarrow> ''Unknown'')))
      \<and> (c = JNum (Fin (real_of_int n)) \<and> \<bar>n\<bar> < 10 ^ 21 \<longrightarrow>
          mapCurrentCondition data =
            Inr (case conditionMap n of Some d \<Rightarrow> d | None \<Rightarrow> ''Unknown''))
      \<and> (c = JNum (Fin 800) \<longrightarrow> mapCurrentCondition data = Inr ''Clear Sky'')
      \<and> (c = JNum (Fin 500) \<longrightarrow> mapCurrentCondition data = Inr ''Light Rain'')
      \<and> (c = JNum (Fin 600) \<longrightarrow> mapCurrentCondition data = Inr ''Light Snow'')
      \<and> (parseInt10 c = Inr (Fin (real_of_int n)) \<and> n \<notin> dom conditionMap \<longrightarrow>
          mapCurrentCondition data = Inr ''Unknown'')
      \<and> (c = JUndefined \<or> c = JNull \<or> c = JBool b \<or> c = JNum NaN \<or> c = JArr [] \<or>
          c = JStr ''invalid'' \<or> (c = JStr s \<and> parseInt_str s = NaN) \<or>
          (c = JObj kvs \<and> map_of kvs ''toString'' = None) \<longrightarrow>
          mapCurrentCondition data = Inr ''Unknown'')
      \<and> (to_string_throws c \<longrightarrow> mapCurrentCondition data = Inl TypeError)
      \<and> (c = JObj kvs \<and> map_of kvs ''toString'' \<noteq> None \<longrightarrow> to_string_throws c)"
    if h: "getProp data ''current'' = Inr cur \<and> getProp cur ''weather'' = Inr w \<and>
      getProp w ''0'' = Inr wd \<and> getProp wd ''id'' = Inr c"
  proof -
    have eq: "mapCurrentCondition data =
        (case parseInt10 c of
           Inl e \<Rightarrow> Inl e
         | Inr x \<Rightarrow>
             Inr (if isNaN x then ''Unknown''
                  else (case conditionMap_at x of Some d \<Rightarrow> d | None \<Rightarrow> ''Unknown'')))"
      using mapCurrentCondition_eq [of data cur w wd c] h by blast
    have a: "c = JNum (Fin (real_of_int n)) \<and> \<bar>n\<bar> < 10 ^ 21 \<longrightarrow>
          mapCurrentCondition data =
            Inr (case conditionMap n of Some d \<Rightarrow> d | None \<Rightarrow> ''Unknown'')"
      unfolding eq using i [of n] by (auto simp: conditionMap_at_int)
    have c8: "c = JNum (Fin 800) \<longrightarrow> mapCurrentCondition data = Inr ''Clear Sky''"
      unfolding eq using k(1) t(1) by (auto simp: cm(1))
    have c5: "c = JNum (Fin 500) \<longrightarrow> mapCurrentCondition data = Inr ''Light Rain''"
      unfolding eq using k(2) t(2) by (auto simp: cm(2))
    have c6: "c = JNum (Fin 600) \<longrightarrow> mapCurrentCondition data = Inr ''Light Snow''"
      unfolding eq using k(3) t(3) by (auto simp: cm(3))
    have n1: "parseInt10 c = Inr (Fin (real_of_int n)) \<and> n \<notin> dom conditionMap \<longrightarrow>
          mapCurrentCondition data = Inr ''Unknown''"
      unfolding eq by (auto simp: conditionMap_at_int domIff)
    have n2: "c = JUndefined \<or> c = JNull \<or> c = JBool b \<or> c = JNum NaN \<or> c = JArr [] \<or>
          c = JStr ''invalid'' \<or> (c = JStr s \<and> parseInt_str s = NaN) \<or>
          (c = JObj kvs \<and> map_of kvs ''toString'' = None) \<longrightarrow>
          mapCurrentCondition data = Inr ''Unknown''"
      unfolding eq using u by (auto simp: parseInt10_def parseInt_num_def)
    have th: "to_string_throws c \<longrightarrow> mapCurrentCondition data = Inl TypeError"
      unfolding eq by (simp add: parseInt10_def)
    have ob: "c = JObj kvs \<and> map_of kvs ''toString'' \<noteq> None \<longrightarrow> to_string_throws c"
      by simp
    show ?thesis using eq a c8 c5 c6 n1 n2 th ob by blast
  qed
  show ?thesis using main t nav by blast
qed

text \<open>
  The code 800, a code that the table does not have, an entry without a code, and the
  object \<^verbatim>\<open>{}\<close> as the code.
\<close>

theorem mapCurrentCondition_lookup_witness:
  "mapCurrentCondition
     (JObj [(''current'', JObj [(''weather'', JArr [JObj [(''id'', JNum (Fin 800))]])])]) =
     Inr ''Clear Sky'' \<and>
   mapCurrentCondition
     (JObj [(''current'', JObj [(''weather'', JArr [JObj [(''id'', JNum (Fin 999))]])])]) =
     Inr ''Unknown'' \<and>
   mapCurrentCondition (JObj [(''current'', JObj [(''weather'', JArr [JObj []])])]) =
     Inr ''Unknown'' \<and>
   mapCurrentCondition
     (JObj [(''current'', JObj [(''weather'', JArr [JObj [(''id'', JObj [])]])])]) =
     Inr ''Unknown''"
proof -
  let ?d = "\<lambda>wd. JObj [(''current'', JObj [(''weather'', JArr [wd])])]"
  have nav: "\<And>wd c. getProp wd ''id'' = Inr c \<Longrightarrow>
      getProp (?d wd) ''current'' = Inr (JObj [(''weather'', JArr [wd])]) \<and>
      getProp (JObj [(''weather'', JArr [wd])]) ''weather'' = Inr (JArr [wd]) \<and>
      getProp (JArr [wd]) ''0'' = Inr wd \<and> getProp wd ''id'' = Inr c"
    by (simp add: index_of_def is_digit_def dec_val_def digit_val_def)
  have i: "getProp (JObj [(''id'', JNum (Fin 800))]) ''id'' = Inr (JNum (Fin 800))"
    "getProp (JObj [(''id'', JNum (Fin 999))]) ''id'' = Inr (JNum (Fin 999))"
    "getProp (JObj []) ''id'' = Inr JUndefined"
    "getProp (JObj [(''id'', JObj [])]) ''id'' = Inr (JObj [])"
    by simp_all
  have n: "999 \<notin> dom conditionMap"
    by (simp add: dom_def conditionMap_def conditionTable_def)
  have e: "map_of ([] :: (string \<times> jsval) list) ''toString'' = None"
    by simp
  have "mapCurrentCondition (?d (JObj [(''id'', JNum (Fin 800))])) = Inr ''Clear Sky''"
    using mapCurrentCondition_lookup
      [where data = "?d (JObj [(''id'', JNum (Fin 800))])" and c = "JNum (Fin 800)",
       THEN conjunct1, THEN mp, OF nav [OF i(1)]]
    by blast
  moreover have "mapCurrentCondition (?d (JObj [(''id'', JNum (Fin 999))])) = Inr ''Unknown''"
    using mapCurrentCondition_lookup
      [where data = "?d (JObj [(''id'', JNum (Fin 999))])" and c = "JNum (Fin 999)"
         and n = 999,
       THEN conjunct1, THEN mp, OF nav [OF i(2)]] n
    by (auto simp: domIff)
  moreover have "mapCurrentCondition (?d (JObj [])) = Inr ''Unknown''"
    using mapCurrentCondition_lookup
      [where data = "?d (JObj [])" and c = JUndefined,
       THEN conjunct1, THEN mp, OF nav [OF i(3)]]
    by blast
  moreover have "mapCurrentCondition (?d (JObj [(''id'', JObj [])])) = Inr ''Unknown''"
    using mapCurrentCondition_lookup
      [where data = "?d (JObj [(''id'', JObj [])])" and c = "JObj []" and kvs = "[]"
         and n = 0 and b = True and s = "[]",
       THEN conjunct1, THEN mp, OF nav [OF i(4)]] e
    by blast
  ultimately show ?thesis by simp
qed

text \<open>
  C4 (as stated) fails: in a payload whose list of weather entries is empty the code is
  absent, and the mapper throws a TypeError instead of returning \<^verbatim>\<open>Unknown\<close>; so it does
  for the code \<^verbatim>\<open>{toString: 1}\<close>, which is no number.
\<close>

theorem mapCurrentCondition_raises:
  "mapCurrentCondition (JObj [(''current'', JObj [(''weather'', JArr [])])]) = Inl TypeError \<and>
   mapCurrentCondition
     (JObj [(''current'',
             JObj [(''weather'', JArr [JObj [(''id'', JObj [(''toString'', JNum (Fin 1))])]])])]) =
     Inl TypeError"
  by (simp add: mapCurrentCondition_def bind_throw_def parseInt10_def index_of_def is_digit_def
      dec_val_def digit_val_def)

text \<open>
  C5 (as amended). For every payload that is neither undefined nor null: when \<^verbatim>\<open>alerts\<close>
  is a non-empty list without an undefined or null entry, the mapper returns one object
  per entry, in the order of the list, whose only field \<^verbatim>\<open>event\<close> is the \<^verbatim>\<open>event\<close> of that
  entry; when \<^verbatim>\<open>alerts\<close> is absent, null or the empty list, it returns the empty list.
  When an entry of the list is undefined or null, reading its \<^verbatim>\<open>event\<close> throws a
  TypeError.
\<close>

theorem mapAlerts_events:
  assumes "getProp data ''alerts'' = Inr al"
  shows "(al = JArr xs \<and> xs \<noteq> [] \<and> (\<forall>x \<in> set xs. x \<noteq> JUndefined \<and> x \<noteq> JNull) \<longrightarrow>
           (\<exists>ys. mapAlerts data = Inr ys \<and> length ys = length xs \<and>
                 (\<forall>i < length xs. getProp (xs ! i) ''event'' = Inr (event (ys ! i)))))
       \<and> (al = JArr xs \<and> (\<exists>x \<in> set xs. x = JUndefined \<or> x = JNull) \<longrightarrow>
            mapAlerts data = Inl TypeError)
       \<and> (al = JUndefined \<or> al = JNull \<or> al = JArr [] \<longrightarrow> mapAlerts data = Inr [])"
proof (intro conjI impI)
  let ?f = "\<lambda>alert. bind_throw (getProp alert ''event'') (\<lambda>ev. Inr \<lparr>event = ev\<rparr>)"
  assume a: "al = JArr xs \<and> xs \<noteq> [] \<and> (\<forall>x \<in> set xs. x \<noteq> JUndefined \<and> x \<noteq> JNull)"
  have "\<forall>x \<in> set xs. \<exists>y. ?f x = Inr y"
  proof
    fix x assume "x \<in> set xs"
    then obtain u where "getProp x ''event'' = Inr u"
      using a getProp_defined [of x "''event''"] by auto
    then show "\<exists>y. ?f x = Inr y" by (simp add: bind_throw_def)
  qed
  then obtain ys where ys: "map_throw ?f xs = Inr ys" "length ys = length xs"
    "\<forall>i < length xs. ?f (xs ! i) = Inr (ys ! i)"
    using map_throw_ok [of xs ?f] by blast
  have "\<forall>i < length xs. getProp (xs ! i) ''event'' = Inr (event (ys ! i))"
  proof (intro allI impI)
    fix i assume "i < length xs"
    then have fi: "?f (xs ! i) = Inr (ys ! i)" using ys(3) by simp
    show "getProp (xs ! i) ''event'' = Inr (event (ys ! i))"
    proof (cases "getProp (xs ! i) ''event''")
      case (Inl e)
      then show ?thesis using fi by (simp add: bind_throw_def)
    next
      case (Inr u)
      then have "ys ! i = \<lparr>event = u\<rparr>" using fi by (simp add: bind_throw_def)
      then have "event (ys ! i) = u" by simp
      then show ?thesis using Inr by simp
    qed
  qed
  then show "\<exists>ys. mapAlerts data = Inr ys \<and> length ys = length xs \<and>
                 (\<forall>i < length xs. getProp (xs ! i) ''event'' = Inr (event (ys ! i)))"
    using mapAlerts_array [of data xs] assms a ys by auto
next
  let ?f = "\<lambda>alert. bind_throw (getProp alert ''event'') (\<lambda>ev. Inr \<lparr>event = ev\<rparr>)"
  assume a: "al = JArr xs \<and> (\<exists>x \<in> set xs. x = JUndefined \<or> x = JNull)"
  then obtain x where x: "x \<in> set xs" "x = JUndefined \<or> x = JNull" by blast
  have "?f x = Inl TypeError"
    using x(2) by (auto simp: bind_throw_def)
  then have "\<exists>x \<in> set xs. ?f x = Inl TypeError"
    using x(1) by blast
  then have "map_throw ?f xs = Inl TypeError" by (rule map_throw_fails)
  then show "mapAlerts data = Inl TypeError"
    using mapAlerts_array [of data xs] assms a by simp
next
  assume "al = JUndefined \<or> al = JNull \<or> al = JArr []"
  then show "mapAlerts data = Inr []"
    using assms by (auto simp: mapAlerts_def bind_throw_def js_gt_def ToNumber_def)
qed

text \<open>Two alerts, the first with a field besides the event.\<close>

theorem mapAlerts_events_witness:
  "\<exists>ys. mapAlerts (JObj [(''alerts'',
            JArr [JObj [(''event'', JStr ''Heat Advisory''), (''sender'', JStr ''NWS'')],
                  JObj [(''event'', JStr ''Flood Warning'')]])]) = Inr ys \<and>
         length ys = 2 \<and> event (ys ! 0) = JStr ''Heat Advisory'' \<and>
         event (ys ! 1) = JStr ''Flood Warning''"
proof -
  let ?xs = "[JObj [(''event'', JStr ''Heat Advisory''), (''sender'', JStr ''NWS'')],
              JObj [(''event'', JStr ''Flood Warning'')]]"
  let ?d = "JObj [(''alerts'', JArr ?xs)]"
  have a: "getProp ?d ''alerts'' = Inr (JArr ?xs)" by simp
  have b: "?xs \<noteq> [] \<and> (\<forall>x \<in> set ?xs. x \<noteq> JUndefined \<and> x \<noteq> JNull)" by simp
  obtain ys where ys: "mapAlerts ?d = Inr ys" "length ys = length ?xs"
    "\<forall>i < length ?xs. getProp (?xs ! i) ''event'' = Inr (event (ys ! i))"
    using mapAlerts_events [OF a, of ?xs] b by blast
  have "(0::nat) < length ?xs" "(1::nat) < length ?xs"
    by simp_all
  then have "getProp (?xs ! 0) ''event'' = Inr (event (ys ! 0))"
    "getProp (?xs ! 1) ''event'' = Inr (event (ys ! 1))"
    using ys(3) by blast+
  then have "event (ys ! 0) = JStr ''Heat Advisory''" "event (ys ! 1) = JStr ''Flood Warning''"
    by simp_all
  then show ?thesis using ys(1) ys(2) by simp
qed

text \<open>
  C5 (as stated) fails: for the payload whose alerts list is \<^verbatim>\<open>[null]\<close> the mapper throws
  a TypeError instead of returning one object for the entry, and so it does for the
  payload \<^verbatim>\<open>null\<close>, which has no alerts list.
\<close>

theorem mapAlerts_raises:
  "mapAlerts (JObj [(''alerts'', JArr [JNull])]) = Inl TypeError \<and> mapAlerts JNull = Inl TypeError"
  by (simp add: mapAlerts_def bind_throw_def js_gt_def ToNumber_def)

section \<open>Properties of the endpoint and of the middleware\<close>

text \<open>
  C7. With valid coordinates, whenever the weather service fails with a cause, the
  handler responds 500 with the body \<^verbatim>\<open>{error: "Failed to fetch weather data"}\<close>, the same
  for every cause, and logs the cause with the two coordinates. The service fails when
  the HTTP request is rejected and when the mapper throws; in both cases the endpoint
  responds in this way.
\<close>

theorem fetch_failure_responds_500:
  "(query_lat req = Some slat \<and> slat \<noteq> [] \<and> query_lon req = Some slon \<and> slon \<noteq> [] \<and>
    areCoordinatesValid slat slon =
      \<lparr>areValid = True, latitude = Some la, longitude = Some lo, errorMessage = None\<rparr> \<and>
    weatherService la lo = (Inl cause, l) \<longrightarrow>
    getWeatherByCoordinates weatherService req =
      (\<lparr>status = 500, body = ErrorBody (Some ''Failed to fetch weather data'')\<rparr>,
       [LogHttp (ip req) ''GET'' (url req) (Some slat, Some slon)] @ l @
       [LogError ''Failed to fetch weather data''
          [MetaError cause, MetaNumber (Some la), MetaNumber (Some lo)]]))
   \<and> (httpGet la lo = Inl c \<longrightarrow>
        fst (OpenWeatherService_getWeatherByCoordinates httpGet mapper la lo) = Inl (Transport c))
   \<and> (httpGet la lo = Inr payload \<and> mapper payload = Inl e \<longrightarrow>
        fst (OpenWeatherService_getWeatherByCoordinates httpGet mapper la lo) = Inl (Mapping e))
   \<and> (query_lat req = Some slat \<and> slat \<noteq> [] \<and> query_lon req = Some slon \<and> slon \<noteq> [] \<and>
       areCoordinatesValid slat slon =
         \<lparr>areValid = True, latitude = Some la, longitude = Some lo, errorMessage = None\<rparr> \<and>
       (httpGet la lo = Inl c \<and> f = Transport c \<or>
        httpGet la lo = Inr payload \<and> mapToWeatherServiceData payload = Inl e \<and> f = Mapping e) \<longrightarrow>
       fst (coordinates_endpoint httpGet req) =
         \<lparr>status = 500, body = ErrorBody (Some ''Failed to fetch weather data'')\<rparr> \<and>
       LogError ''Failed to fetch weather data''
          [MetaError f, MetaNumber (Some la), MetaNumber (Some lo)]
         \<in> set (snd (coordinates_endpoint httpGet req)))"
proof (intro conjI impI)
  assume "query_lat req = Some slat \<and> slat \<noteq> [] \<and> query_lon req = Some slon \<and> slon \<noteq> [] \<and>
    areCoordinatesValid slat slon =
      \<lparr>areValid = True, latitude = Some la, longitude = Some lo, errorMessage = None\<rparr> \<and>
    weatherService la lo = (Inl cause, l)"
  then show "getWeatherByCoordinates weatherService req =
      (\<lparr>status = 500, body = ErrorBody (Some ''Failed to fetch weather data'')\<rparr>,
       [LogHttp (ip req) ''GET'' (url req) (Some slat, Some slon)] @ l @
       [LogError ''Failed to fetch weather data''
          [MetaError cause, MetaNumber (Some la), MetaNumber (Some lo)]])"
    by (simp add: getWeatherByCoordinates_def absent_def FETCH_FAILED_def)
next
  assume "httpGet la lo = Inl c"
  then show "fst (OpenWeatherService_getWeatherByCoordinates httpGet mapper la lo) = Inl (Transport c)"
    by (simp add: OpenWeatherService_getWeatherByCoordinates_def)
next
  assume "httpGet la lo = Inr payload \<and> mapper payload = Inl e"
  then show "fst (OpenWeatherService_getWeatherByCoordinates httpGet mapper la lo) = Inl (Mapping e)"
    by (simp add: OpenWeatherService_getWeatherByCoordinates_def)
next
  assume h: "query_lat req = Some slat \<and> slat \<noteq> [] \<and> query_lon req = Some slon \<and> slon \<noteq> [] \<and>
       areCoordinatesValid slat slon =
         \<lparr>areValid = True, latitude = Some la, longitude = Some lo, errorMessage = None\<rparr> \<and>
       (httpGet la lo = Inl c \<and> f = Transport c \<or>
        httpGet la lo = Inr payload \<and> mapToWeatherServiceData payload = Inl e \<and> f = Mapping e)"
  then show "fst (coordinates_endpoint httpGet req) =
         \<lparr>status = 500, body = ErrorBody (Some ''Failed to fetch weather data'')\<rparr>"
    by (auto simp: coordinates_endpoint_def getWeatherByCoordinates_def absent_def FETCH_FAILED_def
        OpenWeatherService_getWeatherByCoordinates_def)
  from h show "LogError ''Failed to fetch weather data''
          [MetaError f, MetaNumber (Some la), MetaNumber (Some lo)]
         \<in> set (snd (coordinates_endpoint httpGet req))"
    by (auto simp: coordinates_endpoint_def getWeatherByCoordinates_def absent_def FETCH_FAILED_def
        OpenWeatherService_getWeatherByCoordinates_def)
qed

text \<open>
  A rejected request and a payload that the mapper cannot read, for valid coordinates;
  the coordinates logged are the doubles that 40.7128 and -74.0060 denote.
\<close>

theorem fetch_failure_responds_500_witness:
  "fst (coordinates_endpoint (\<lambda>x y. Inl ''Service error'')
          \<lparr>ip = Some ''127.0.0.1'', url = ''/coordinates'', query_lat = Some ''40.7128'',
           query_lon = Some ''-74.0060''\<rparr>) =
     \<lparr>status = 500, body = ErrorBody (Some ''Failed to fetch weather data'')\<rparr> \<and>
   LogError ''Failed to fetch weather data''
     [MetaError (Transport ''Service error''), MetaNumber (Some (Fin (2864908607956399 / 2 ^ 46))),
      MetaNumber (Some (Fin (- (2603854640806101 / 2 ^ 45))))]
     \<in> set (snd (coordinates_endpoint (\<lambda>x y. Inl ''Service error'')
          \<lparr>ip = Some ''127.0.0.1'', url = ''/coordinates'', query_lat = Some ''40.7128'',
           query_lon = Some ''-74.0060''\<rparr>)) \<and>
   fst (coordinates_endpoint (\<lambda>x y. Inr (JObj []) :: string + jsval)
          \<lparr>ip = Some ''127.0.0.1'', url = ''/coordinates'', query_lat = Some ''40.7128'',
           query_lon = Some ''-74.0060''\<rparr>) =
     \<lparr>status = 500, body = ErrorBody (Some ''Failed to fetch weather data'')\<rparr>"
proof -
  let ?req = "\<lparr>ip = Some ''127.0.0.1'', url = ''/coordinates'', query_lat = Some ''40.7128'',
           query_lon = Some ''-74.0060''\<rparr>"
  have p: "parseFloat ''40.7128'' = Fin (2864908607956399 / 2 ^ 46)" "parseFloat ''-74.0060'' = Fin (- (2603854640806101 / 2 ^ 45))"
    by (simp_all add: reader_defs)
  have v: "areCoordinatesValid ''40.7128'' ''-74.0060'' =
      \<lparr>areValid = True, latitude = Some (Fin (2864908607956399 / 2 ^ 46)), longitude = Some (Fin (- (2603854640806101 / 2 ^ 45))),
       errorMessage = None\<rparr>"
    by (simp add: areCoordinatesValid_def p js_gt_def)
  have m: "mapToWeatherServiceData (JObj []) = Inl TypeError"
    by (simp add: mapToWeatherServiceData_def mapCurrentCondition_def bind_throw_def)
  have 1: "fst (coordinates_endpoint (\<lambda>x y. Inl ''Service error'') ?req) =
         \<lparr>status = 500, body = ErrorBody (Some ''Failed to fetch weather data'')\<rparr> \<and>
       LogError ''Failed to fetch weather data''
          [MetaError (Transport ''Service error''), MetaNumber (Some (Fin (2864908607956399 / 2 ^ 46))),
           MetaNumber (Some (Fin (- (2603854640806101 / 2 ^ 45))))]
         \<in> set (snd (coordinates_endpoint (\<lambda>x y. Inl ''Service error'') ?req))"
    by (rule mp [OF fetch_failure_responds_500
      [where req = ?req and slat = "''40.7128''" and slon = "''-74.0060''"
         and la = "Fin (2864908607956399 / 2 ^ 46)" and lo = "Fin (- (2603854640806101 / 2 ^ 45))"
         and httpGet = "\<lambda>x y. Inl ''Service error''" and c = "''Service error''"
         and f = "Transport ''Service error''",
       THEN conjunct2, THEN conjunct2, THEN conjunct2]])
       (simp add: v)
  have 2: "fst (coordinates_endpoint (\<lambda>x y. Inr (JObj []) :: string + jsval) ?req) =
         \<lparr>status = 500, body = ErrorBody (Some ''Failed to fetch weather data'')\<rparr>"
    by (rule conjunct1 [OF mp [OF fetch_failure_responds_500
      [where req = ?req and slat = "''40.7128''" and slon = "''-74.0060''"
         and la = "Fin (2864908607956399 / 2 ^ 46)" and lo = "Fin (- (2603854640806101 / 2 ^ 45))"
         and httpGet = "\<lambda>x y. Inr (JObj []) :: string + jsval" and payload = "JObj []"
         and e = TypeError and f = "Mapping TypeError",
       THEN conjunct2, THEN conjunct2, THEN conjunct2]]])
       (simp add: v m)
  show ?thesis using 1 2 by simp
qed

text \<open>
  C8. In the mode \<^verbatim>\<open>development\<close> the middleware calls the next handler whatever the key
  is. In any other mode: without a key, neither a non-empty \<^verbatim>\<open>x-api-key\<close> header nor a
  non-empty \<^verbatim>\<open>apikey\<close> parameter, it responds 401; with a key, the header going first, it
  calls the next handler if the key is the configured secret and responds 403 if not.
\<close>

theorem apiKeyValidator_gate:
  "(NODE_ENV env = Some ''development'' \<longrightarrow> apiKeyValidator env header apikey = Next)
   \<and> (NODE_ENV env \<noteq> Some ''development'' \<longrightarrow>
        ((header = None \<or> header = Some []) \<and> (apikey = None \<or> apikey = Some (QString [])) \<longrightarrow>
           apiKeyValidator env header apikey = Respond 401 ''Unauthorized'')
      \<and> (header = Some k \<and> k \<noteq> [] \<longrightarrow>
           apiKeyValidator env header apikey =
             (if WEATHER_SERVICE_API_KEY env = Some k then Next else Respond 403 ''Forbidden''))
      \<and> ((header = None \<or> header = Some []) \<and> apikey = Some (QString k) \<and> k \<noteq> [] \<longrightarrow>
           apiKeyValidator env header apikey =
             (if WEATHER_SERVICE_API_KEY env = Some k then Next else Respond 403 ''Forbidden''))
      \<and> ((header = None \<or> header = Some []) \<and> apikey = Some QComposite \<longrightarrow>
           apiKeyValidator env header apikey = Respond 403 ''Forbidden''))"
proof (intro conjI impI)
  assume "NODE_ENV env = Some ''development''"
  then show "apiKeyValidator env header apikey = Next"
    by (simp add: apiKeyValidator_def)
next
  assume "NODE_ENV env \<noteq> Some ''development''"
    and "(header = None \<or> header = Some []) \<and> (apikey = None \<or> apikey = Some (QString []))"
  then show "apiKeyValidator env header apikey = Respond 401 ''Unauthorized''"
    by (cases "WEATHER_SERVICE_API_KEY env") (auto simp: apiKeyValidator_def)
next
  assume "NODE_ENV env \<noteq> Some ''development''" and "header = Some k \<and> k \<noteq> []"
  then show "apiKeyValidator env header apikey =
             (if WEATHER_SERVICE_API_KEY env = Some k then Next else Respond 403 ''Forbidden'')"
    by (cases "WEATHER_SERVICE_API_KEY env") (auto simp: apiKeyValidator_def)
next
  assume "NODE_ENV env \<noteq> Some ''development''"
    and "(header = None \<or> header = Some []) \<and> apikey = Some (QString k) \<and> k \<noteq> []"
  then show "apiKeyValidator env header apikey =
             (if WEATHER_SERVICE_API_KEY env = Some k then Next else Respond 403 ''Forbidden'')"
    by (cases "WEATHER_SERVICE_API_KEY env") (auto simp: apiKeyValidator_def)
next
  assume "NODE_ENV env \<noteq> Some ''development''"
    and "(header = None \<or> header = Some []) \<and> apikey = Some QComposite"
  then show "apiKeyValidator env header apikey = Respond 403 ''Forbidden''"
    by (cases "WEATHER_SERVICE_API_KEY env") (auto simp: apiKeyValidator_def)
qed

text \<open>No key, a wrong key, the right key as a parameter, and the development mode.\<close>

theorem apiKeyValidator_gate_witness:
  "apiKeyValidator \<lparr>NODE_ENV = Some ''production'', WEATHER_SERVICE_API_KEY = Some ''s3cret''\<rparr>
     None None = Respond 401 ''Unauthorized'' \<and>
   apiKeyValidator \<lparr>NODE_ENV = Some ''production'', WEATHER_SERVICE_API_KEY = Some ''s3cret''\<rparr>
     (Some ''guess'') None = Respond 403 ''Forbidden'' \<and>
   apiKeyValidator \<lparr>NODE_ENV = Some ''production'', WEATHER_SERVICE_API_KEY = Some ''s3cret''\<rparr>
     None (Some (QString ''s3cret'')) = Next \<and>
   apiKeyValidator \<lparr>NODE_ENV = Some ''development'', WEATHER_SERVICE_API_KEY = Some ''s3cret''\<rparr>
     None None = Next"
proof -
  let ?prod = "\<lparr>NODE_ENV = Some ''production'', WEATHER_SERVICE_API_KEY = Some ''s3cret''\<rparr>"
  let ?dev = "\<lparr>NODE_ENV = Some ''development'', WEATHER_SERVICE_API_KEY = Some ''s3cret''\<rparr>"
  have "apiKeyValidator ?prod None None = Respond 401 ''Unauthorized''"
    using apiKeyValidator_gate [of ?prod None None] by simp
  moreover have "apiKeyValidator ?prod (Some ''guess'') None = Respond 403 ''Forbidden''"
    using apiKeyValidator_gate [of ?prod "Some ''guess''" None "''guess''"] by simp
  moreover have "apiKeyValidator ?prod None (Some (QString ''s3cret'')) = Next"
    using apiKeyValidator_gate [of ?prod None "Some (QString ''s3cret'')" "''s3cret''"] by simp
  moreover have "apiKeyValidator ?dev None None = Next"
    using apiKeyValidator_gate [of ?dev None None] by simp
  ultimately show ?thesis by simp
qed

section \<open>The scenarios of the test suite\<close>

text \<open>
  The mapper and the handler on the inputs of the repository's own tests: a full payload,
  a latitude out of range, a missing longitude, and a service that answers.
\<close>

lemma scenario_mapper:
  "mapToWeatherServiceData
     (JObj [(''current'', JObj [(''weather'', JArr [JObj [(''id'', JNum (Fin 800))]]),
                               (''feels_like'', JNum (Fin 75))]),
            (''alerts'', JArr [JObj [(''event'', JStr ''Heat Advisory'')]])]) =
   Inr \<lparr>current_condition = ''Clear Sky'', temperature_description = ''Warm'',
        active_alerts = [\<lparr>event = JStr ''Heat Advisory''\<rparr>]\<rparr>"
proof -
  have "parseInt_num (Fin 800) = Fin 800"
    using parseInt_num_int [of 800] by simp
  then show ?thesis
    by (simp add: mapToWeatherServiceData_def mapCurrentCondition_def mapTempDescription_def
      mapAlerts_def bind_throw_def index_of_def is_digit_def dec_val_def digit_val_def
      parseInt10_def parseFloat_val_def ToNumber_def conditionMap_at_def conditionMap_def
      conditionTable_def or_else_def js_le_def js_gt_def
      TEMP_EXTREMELY_COLD_UPPER_def TEMP_VERY_COLD_UPPER_def TEMP_COLD_UPPER_def
      TEMP_CHILLY_UPPER_def TEMP_COOL_UPPER_def TEMP_MILD_UPPER_def TEMP_WARM_UPPER_def
      TEMP_HOT_UPPER_def TEMP_VERY_HOT_UPPER_def)
qed

lemma scenario_route:
  "fst (getWeatherByCoordinates ws
          \<lparr>ip = None, url = [], query_lat = Some ''100'', query_lon = Some ''-74.0060''\<rparr>) =
     \<lparr>status = 400, body = ErrorBody (Some ''Latitude must be between -90 and 90'')\<rparr>"
  "fst (getWeatherByCoordinates ws
          \<lparr>ip = None, url = [], query_lat = Some ''40.7128'', query_lon = None\<rparr>) =
     \<lparr>status = 400, body = ErrorBody (Some ''Latitude and Longitude are required'')\<rparr>"
  "fst (getWeatherByCoordinates (\<lambda>x y. (Inr w, []))
          \<lparr>ip = None, url = [], query_lat = Some ''40.7128'', query_lon = Some ''-74.0060''\<rparr>) =
     \<lparr>status = 200, body = DataBody w\<rparr>"
  by (simp_all add: getWeatherByCoordinates_def absent_def areCoordinatesValid_def invalid_def
      reader_defs js_gt_def INVALID_LATITUDE_def MISSING_COORDINATES_def)

text \<open>
  A text that is nearer to a threshold than to any other double is read as the
  threshold: such a feels-like text at 95 is \<^verbatim>\<open>Very Hot\<close>.
\<close>

lemma scenario_rounding:
  "mapTempDescription
     (JObj [(''current'', JObj [(''feels_like'', JStr ''95.00000000000000001'')])]) =
     Inr ''Very Hot''"
proof -
  have "parseFloat ''95.00000000000000001'' = Fin 95"
    by (simp add: reader_defs)
  then show ?thesis
    by (simp add: mapTempDescription_def bind_throw_def parseFloat_val_def js_le_def js_gt_def
      TEMP_EXTREMELY_COLD_UPPER_def TEMP_VERY_COLD_UPPER_def TEMP_COLD_UPPER_def
      TEMP_CHILLY_UPPER_def TEMP_COOL_UPPER_def TEMP_MILD_UPPER_def TEMP_WARM_UPPER_def
      TEMP_HOT_UPPER_def TEMP_VERY_HOT_UPPER_def)
qed

end
